theory Spec2Isabelle
  imports Complex_Main "HOL-Library.Log_Nat"
begin

section \<open>Strings and arrays as the TypeScript sources use them\<close>

text \<open>
  JavaScript strings are modelled as \<^typ>\<open>string\<close>, restricted to ASCII: case
  conversion maps the 26 Latin letters and leaves every other character alone.
  A thrown exception is a value of type \<open>error\<close>; a function that can throw returns
  \<open>error + 'a\<close> with \<open>Inl\<close> for the exception.
\<close>

datatype error = TypeError | IOError | DriverError

definition toLowerChar :: "char \<Rightarrow> char" where
  "toLowerChar c =
     (case map_of (zip ''ABCDEFGHIJKLMNOPQRSTUVWXYZ'' ''abcdefghijklmnopqrstuvwxyz'') c of
        Some d \<Rightarrow> d | None \<Rightarrow> c)"

definition toUpperChar :: "char \<Rightarrow> char" where
  "toUpperChar c =
     (case map_of (zip ''abcdefghijklmnopqrstuvwxyz'' ''ABCDEFGHIJKLMNOPQRSTUVWXYZ'') c of
        Some d \<Rightarrow> d | None \<Rightarrow> c)"

definition toLowerCase :: "string \<Rightarrow> string" where
  "toLowerCase s = map toLowerChar s"

definition toUpperCase :: "string \<Rightarrow> string" where
  "toUpperCase s = map toUpperChar s"

definition startsWith :: "string \<Rightarrow> string \<Rightarrow> bool" where
  "startsWith s p = (take (length p) s = p)"

definition endsWith :: "string \<Rightarrow> string \<Rightarrow> bool" where
  "endsWith s p = (length p \<le> length s \<and> drop (length s - length p) s = p)"

text \<open>\<open>s.includes(p)\<close> on strings: \<open>p\<close> occurs as a contiguous substring.\<close>

fun includesStr :: "string \<Rightarrow> string \<Rightarrow> bool" where
  "includesStr [] p = (p = [])"
| "includesStr (c # s) p = (startsWith (c # s) p \<or> includesStr s p)"

text \<open>\<open>s.split(sep)\<close> where the separator is one character, a fixed one (\<open>splitOn\<close>) or
  one of a class (\<open>splitWhen\<close>); the empty string gives \<open>[""]\<close>.\<close>

fun splitWhen :: "(char \<Rightarrow> bool) \<Rightarrow> string \<Rightarrow> string list" where
  "splitWhen sep [] = [[]]"
| "splitWhen sep (c # s) =
     (if sep c then [] # splitWhen sep s
      else (case splitWhen sep s of [] \<Rightarrow> [[c]] | w # ws \<Rightarrow> (c # w) # ws))"

definition splitOn :: "char \<Rightarrow> string \<Rightarrow> string list" where
  "splitOn sep s = splitWhen (\<lambda>c. c = sep) s"

text \<open>\<open>s.slice(0, -1)\<close>: the string without its last character.\<close>

definition sliceDropLast :: "string \<Rightarrow> string" where
  "sliceDropLast s = take (length s - 1) s"

text \<open>Insertion order of a JavaScript \<open>Set\<close>: the first occurrence of each element.\<close>

fun insertionOrder :: "'a list \<Rightarrow> 'a list \<Rightarrow> 'a list" where
  "insertionOrder seen [] = []"
| "insertionOrder seen (x # xs) =
     (if x \<in> set seen then insertionOrder seen xs else x # insertionOrder (x # seen) xs)"

definition setToArray :: "'a list \<Rightarrow> 'a list" where
  "setToArray xs = insertionOrder [] xs"

section \<open>The syntax tree consumed by the detectors\<close>

text \<open>
  The Babel node kinds that the visitors inspect, each with the children that the
  traversal descends into, in the order of Babel's visitor keys. Every other node kind
  is \<open>OtherNode\<close> with its children. \<open>loc\<close> is kept where the code reads it.
\<close>

datatype SourceLocation = SourceLocation (start_line: nat) (end_line: nat)

datatype Node =
    Identifier string
  | StringLiteral string
  | MemberExpression Node Node
  | CallExpression "SourceLocation option" Node "Node list"
  | ArrowFunctionExpression "Node list" Node
  | FunctionExpression "Node option" "Node list" Node
  | FunctionDeclaration "SourceLocation option" "Node option" "Node list" Node
  | VariableDeclarator "SourceLocation option" Node "Node option"
  | AssignmentExpression "SourceLocation option" Node Node
  | ObjectMethod "SourceLocation option" Node "Node list" Node
  | ImportDeclaration "Node list" Node
  | ImportDefaultSpecifier Node
  | ImportNamespaceSpecifier Node
  | ImportSpecifier Node Node
  | OtherNode "Node list"

text \<open>The direct children of a node, in traversal order.\<close>

fun children :: "Node \<Rightarrow> Node list" where
  "children (Identifier n) = []"
| "children (StringLiteral v) = []"
| "children (MemberExpression obj prop) = [obj, prop]"
| "children (CallExpression l callee args) = callee # args"
| "children (ArrowFunctionExpression params body) = params @ [body]"
| "children (FunctionExpression fid params body) = (case fid of None \<Rightarrow> [] | Some i \<Rightarrow> [i]) @ params @ [body]"
| "children (FunctionDeclaration l fid params body) = (case fid of None \<Rightarrow> [] | Some i \<Rightarrow> [i]) @ params @ [body]"
| "children (VariableDeclarator l vid init) = vid # (case init of None \<Rightarrow> [] | Some i \<Rightarrow> [i])"
| "children (AssignmentExpression l lhs rhs) = [lhs, rhs]"
| "children (ObjectMethod l key params body) = key # params @ [body]"
| "children (ImportDeclaration specs source) = specs @ [source]"
| "children (ImportDefaultSpecifier local) = [local]"
| "children (ImportNamespaceSpecifier local) = [local]"
| "children (ImportSpecifier imported local) = [imported, local]"
| "children (OtherNode ns) = ns"

text \<open>
  \<open>traverse(ast, visitors)\<close> calls the visitor of a node when it enters the node, before
  its children: depth-first pre-order. \<open>preorder\<close> lists a node and everything below it
  in that order.
\<close>

fun preorder :: "Node \<Rightarrow> Node list" where
  "preorder (Identifier n) = [Identifier n]"
| "preorder (StringLiteral v) = [StringLiteral v]"
| "preorder (MemberExpression obj prop) =
     MemberExpression obj prop # preorder obj @ preorder prop"
| "preorder (CallExpression l callee args) =
     CallExpression l callee args # preorder callee @ concat (map preorder args)"
| "preorder (ArrowFunctionExpression params body) =
     ArrowFunctionExpression params body # concat (map preorder params) @ preorder body"
| "preorder (FunctionExpression fid params body) =
     FunctionExpression fid params body #
       (case fid of None \<Rightarrow> [] | Some i \<Rightarrow> preorder i) @
       concat (map preorder params) @ preorder body"
| "preorder (FunctionDeclaration l fid params body) =
     FunctionDeclaration l fid params body #
       (case fid of None \<Rightarrow> [] | Some i \<Rightarrow> preorder i) @
       concat (map preorder params) @ preorder body"
| "preorder (VariableDeclarator l vid init) =
     VariableDeclarator l vid init # preorder vid @
       (case init of None \<Rightarrow> [] | Some i \<Rightarrow> preorder i)"
| "preorder (AssignmentExpression l lhs rhs) =
     AssignmentExpression l lhs rhs # preorder lhs @ preorder rhs"
| "preorder (ObjectMethod l key params body) =
     ObjectMethod l key params body # preorder key @
       concat (map preorder params) @ preorder body"
| "preorder (ImportDeclaration specs source) =
     ImportDeclaration specs source # concat (map preorder specs) @ preorder source"
| "preorder (ImportDefaultSpecifier local) = ImportDefaultSpecifier local # preorder local"
| "preorder (ImportNamespaceSpecifier local) =
     ImportNamespaceSpecifier local # preorder local"
| "preorder (ImportSpecifier imported local) =
     ImportSpecifier imported local # preorder imported @ preorder local"
| "preorder (OtherNode ns) = OtherNode ns # concat (map preorder ns)"

text \<open>
  The nodes a traversal of a parsed file visits: everything below the root (the root
  is Babel's \<open>File\<close> node, which no visitor of this program handles).
\<close>

definition traversal :: "Node \<Rightarrow> Node list" where
  "traversal ast = concat (map preorder (children ast))"

section \<open>RouteDetector (routeDetection.ts)\<close>

text \<open>\<open>routeMethod\<close> is the field \<open>method\<close> of the interface; the optional fields
  \<open>prefix\<close> and \<open>baseUrl\<close> are never set by the detector.\<close>

record DetectedRoute =
  routeMethod :: string
  path :: string
  filePath :: string
  line :: nat
  middlewares :: "string list"
  handler :: string
  controllerFilePath :: "string option"
  controllerFunction :: "string option"

text \<open>
  The fields of the class. The three \<open>Map\<close>s are only read with \<open>get\<close> and written
  with \<open>set\<close> and \<open>clear\<close>, so they are partial functions.
\<close>

record RouteDetector =
  workspaceRoot :: string
  routes :: "DetectedRoute list"
  routerPrefixes :: "string \<rightharpoonup> string"
  controllerImports :: "string \<rightharpoonup> string"
  functionImports :: "string \<rightharpoonup> string"

text \<open>
  What the detector reads from outside: the editor's file search, the file system with
  the parser (\<open>readFileSync\<close> followed by \<open>parse\<close>, either of which may throw), and
  the functions of Node's \<open>path\<close> module.
\<close>

record Workspace =
  findFiles :: "string \<Rightarrow> error + string list"
  readAndParse :: "string \<Rightarrow> error + Node"
  existsSync :: "string \<Rightarrow> bool"
  path_dirname :: "string \<Rightarrow> string"
  path_resolve :: "string \<Rightarrow> string \<Rightarrow> string"
  path_extname :: "string \<Rightarrow> string"
  path_join :: "string \<Rightarrow> string \<Rightarrow> string"

text \<open>\<open>if (s)\<close> on a value of type \<open>string | undefined\<close>: defined and not empty.\<close>

fun truthy :: "string option \<Rightarrow> bool" where
  "truthy None = False"
| "truthy (Some s) = (s \<noteq> [])"

definition patterns :: "string list" where
  "patterns = [''**/app.js'', ''**/server.js'', ''**/index.js'', ''**/routes/**/*.js'',
     ''**/router/**/*.js'', ''**/controllers/**/*.js'', ''**/*router*.js'', ''**/*route*.js'']"

definition findRouteFiles :: "Workspace \<Rightarrow> string list" where
  "findRouteFiles ws =
     setToArray (concat (map (\<lambda>pattern. case findFiles ws pattern of
                                            Inl e \<Rightarrow> [] | Inr found \<Rightarrow> found) patterns))"

text \<open>The type guards \<open>isIdentifier\<close>, \<open>isStringLiteral\<close>, \<open>isMemberExpression\<close> and
  the test \<open>node.type === "CallExpression"\<close>, each returning what the guarded code then reads.\<close>

fun asIdentifier :: "Node \<Rightarrow> string option" where
  "asIdentifier (Identifier n) = Some n"
| "asIdentifier n = None"

fun asStringLiteral :: "Node \<Rightarrow> string option" where
  "asStringLiteral (StringLiteral v) = Some v"
| "asStringLiteral n = None"

fun asMemberExpression :: "Node \<Rightarrow> (Node \<times> Node) option" where
  "asMemberExpression (MemberExpression obj prop) = Some (obj, prop)"
| "asMemberExpression n = None"

fun asCallExpression :: "Node \<Rightarrow> (SourceLocation option \<times> Node \<times> Node list) option" where
  "asCallExpression (CallExpression l callee args) = Some (l, callee, args)"
| "asCallExpression n = None"

text \<open>\<open>node.loc?.start.line || 0\<close> and \<open>node.loc?.end.line || 0\<close>.\<close>

definition locStart :: "SourceLocation option \<Rightarrow> nat" where
  "locStart l = (case l of None \<Rightarrow> 0 | Some loc \<Rightarrow> start_line loc)"

definition locEnd :: "SourceLocation option \<Rightarrow> nat" where
  "locEnd l = (case l of None \<Rightarrow> 0 | Some loc \<Rightarrow> end_line loc)"

definition detectRouterPrefix :: "RouteDetector \<Rightarrow> Node \<Rightarrow> RouteDetector" where
  "detectRouterPrefix d node =
     (case asCallExpression node of
        None \<Rightarrow> d
      | Some (l, callee, args) \<Rightarrow>
         (case asMemberExpression callee of
            None \<Rightarrow> d
          | Some (obj, prop) \<Rightarrow>
             (if asIdentifier prop = Some ''use'' \<and> length args \<ge> 2 then
                (case (asStringLiteral (args ! 0), asIdentifier (args ! 1)) of
                   (Some firstArg, Some secondArg) \<Rightarrow>
                     d\<lparr>routerPrefixes := (routerPrefixes d)(secondArg \<mapsto> firstArg)\<rparr>
                 | _ \<Rightarrow> d)
              else d)))"

definition extensions :: "string list" where
  "extensions = [''.js'', ''.ts'', ''.jsx'', ''.tsx'']"

definition resolveControllerPath :: "Workspace \<Rightarrow> string \<Rightarrow> string \<Rightarrow> string option" where
  "resolveControllerPath ws importPath currentFilePath =
     (if \<not> startsWith importPath ''.'' then None
      else
        let currentDir = path_dirname ws currentFilePath;
            resolvedPath = path_resolve ws currentDir importPath;
            hasExtension = (path_extname ws importPath \<noteq> [])
        in if hasExtension then
             (if existsSync ws resolvedPath then Some resolvedPath else None)
           else
             (case find (\<lambda>ext. existsSync ws (resolvedPath @ ext)) extensions of
                Some ext \<Rightarrow> Some (resolvedPath @ ext)
              | None \<Rightarrow>
                 (case find (\<lambda>ext. existsSync ws (path_join ws resolvedPath (''index'' @ ext)))
                         extensions of
                    Some ext \<Rightarrow> Some (path_join ws resolvedPath (''index'' @ ext))
                  | None \<Rightarrow> None)))"

fun importSpecifier :: "string \<Rightarrow> RouteDetector \<Rightarrow> Node \<Rightarrow> RouteDetector" where
  "importSpecifier resolvedPath d (ImportDefaultSpecifier local) =
     (case asIdentifier local of
        Some n \<Rightarrow> d\<lparr>controllerImports := (controllerImports d)(n \<mapsto> resolvedPath)\<rparr>
      | None \<Rightarrow> d)"
| "importSpecifier resolvedPath d (ImportNamespaceSpecifier local) =
     (case asIdentifier local of
        Some n \<Rightarrow> d\<lparr>controllerImports := (controllerImports d)(n \<mapsto> resolvedPath)\<rparr>
      | None \<Rightarrow> d)"
| "importSpecifier resolvedPath d (ImportSpecifier imported local) =
     (case asIdentifier local of
        Some n \<Rightarrow> d\<lparr>functionImports := (functionImports d)(n \<mapsto> resolvedPath)\<rparr>
      | None \<Rightarrow> d)"
| "importSpecifier resolvedPath d spec = d"

fun detectImports :: "Workspace \<Rightarrow> RouteDetector \<Rightarrow> Node \<Rightarrow> string \<Rightarrow> RouteDetector" where
  "detectImports ws d (ImportDeclaration specifiers source) currentFilePath =
     (case asStringLiteral source of
        None \<Rightarrow> d
      | Some importPath \<Rightarrow>
         (case resolveControllerPath ws importPath currentFilePath of
            Some resolvedPath \<Rightarrow>
              (if resolvedPath \<noteq> [] then foldl (importSpecifier resolvedPath) d specifiers
               else d)
          | None \<Rightarrow> d))"
| "detectImports ws d n currentFilePath = d"

fun detectRequires :: "Workspace \<Rightarrow> RouteDetector \<Rightarrow> Node \<Rightarrow> string \<Rightarrow> RouteDetector" where
  "detectRequires ws d (VariableDeclarator l vid init) currentFilePath =
     (case (asIdentifier vid, init) of
        (Some vname, Some initNode) \<Rightarrow>
          (case asCallExpression initNode of
             None \<Rightarrow> d
           | Some (l', callee, args) \<Rightarrow>
              (if asIdentifier callee = Some ''require'' \<and> length args > 0 then
                 (case asStringLiteral (args ! 0) of
                    None \<Rightarrow> d
                  | Some requirePath \<Rightarrow>
                     (case resolveControllerPath ws requirePath currentFilePath of
                        Some resolvedPath \<Rightarrow>
                          (if resolvedPath \<noteq> []
                           then d\<lparr>controllerImports :=
                                     (controllerImports d)(vname \<mapsto> resolvedPath)\<rparr>
                           else d)
                      | None \<Rightarrow> d))
               else d))
      | _ \<Rightarrow> d)"
| "detectRequires ws d n currentFilePath = d"

definition combinePaths :: "string \<Rightarrow> string \<Rightarrow> string" where
  "combinePaths prefix p =
     (let cleanPrefix = (if endsWith prefix ''/'' then sliceDropLast prefix else prefix);
          cleanPath = (if startsWith p ''/'' then p else ''/'' @ p)
      in cleanPrefix @ cleanPath)"

definition httpMethods :: "string list" where
  "httpMethods = [''get'', ''post'', ''put'', ''delete'', ''patch'', ''head'', ''options'']"

text \<open>
  The loop over the arguments after the path, from index 1. \<open>handlerArgs\<close> receives
  the arguments still to visit; the last one is the one with nothing after it.
\<close>

record HandlerInfo =
  hMiddlewares :: "string list"
  hHandler :: string
  hControllerFilePath :: "string option"
  hControllerFunction :: "string option"

fun handlerArgs :: "RouteDetector \<Rightarrow> HandlerInfo \<Rightarrow> Node list \<Rightarrow> HandlerInfo" where
  "handlerArgs d h [] = h"
| "handlerArgs d h (arg # others) =
     (case asIdentifier arg of
        Some argName \<Rightarrow>
          (if others = [] then
             (let h1 = h\<lparr>hHandler := argName\<rparr>;
                  resolvedPath = functionImports d argName
              in if truthy resolvedPath
                 then h1\<lparr>hControllerFilePath := resolvedPath,
                         hControllerFunction := Some argName\<rparr>
                 else h1)
           else handlerArgs d (h\<lparr>hMiddlewares := hMiddlewares h @ [argName]\<rparr>) others)
      | None \<Rightarrow>
          (if others = [] then
             (case asMemberExpression arg of
                None \<Rightarrow> h
              | Some (obj, prop) \<Rightarrow>
                 (case (asIdentifier obj, asIdentifier prop) of
                    (Some controllerName, Some methodName) \<Rightarrow>
                      (let h1 = h\<lparr>hHandler := controllerName @ ''.'' @ methodName\<rparr>;
                           resolvedPath = controllerImports d controllerName
                       in if truthy resolvedPath
                          then h1\<lparr>hControllerFilePath := resolvedPath,
                                  hControllerFunction := Some methodName\<rparr>
                          else h1)
                  | _ \<Rightarrow> h))
           else handlerArgs d h others))"

definition initialHandler :: HandlerInfo where
  "initialHandler =
     \<lparr>hMiddlewares = [], hHandler = ''anonymous'',
      hControllerFilePath = None, hControllerFunction = None\<rparr>"

text \<open>
  The prefix that applies to a call: the receiver is an identifier and the prefix
  registered for it is a non-empty string (\<open>if (prefix)\<close>).
\<close>

definition prefixFor :: "RouteDetector \<Rightarrow> Node \<Rightarrow> string option" where
  "prefixFor d obj =
     (case asIdentifier obj of
        None \<Rightarrow> None
      | Some routerName \<Rightarrow>
         (if truthy (routerPrefixes d routerName) then routerPrefixes d routerName else None))"

definition fullPathOf :: "RouteDetector \<Rightarrow> Node \<Rightarrow> string \<Rightarrow> string" where
  "fullPathOf d obj routePath =
     (case prefixFor d obj of
        None \<Rightarrow> routePath
      | Some prefix \<Rightarrow> combinePaths prefix routePath)"

text \<open>
  \<open>detectRoute\<close> reads \<open>node.arguments[0].type\<close> without checking that the call has an
  argument: a call such as \<open>cache.delete()\<close> throws a \<open>TypeError\<close>.
\<close>

definition detectRoute :: "RouteDetector \<Rightarrow> Node \<Rightarrow> string \<Rightarrow> error + RouteDetector" where
  "detectRoute d node file =
     (case asCallExpression node of
        None \<Rightarrow> Inr d
      | Some (l, callee, args) \<Rightarrow>
         (case asMemberExpression callee of
            None \<Rightarrow> Inr d
          | Some (obj, prop) \<Rightarrow>
             (case asIdentifier prop of
                None \<Rightarrow> Inr d
              | Some pname \<Rightarrow>
                 (let m = toLowerCase pname in
                  if m \<notin> set httpMethods then Inr d
                  else
                    (case args of
                       [] \<Rightarrow> Inl TypeError
                     | pathArg # rest \<Rightarrow>
                        (case asStringLiteral pathArg of
                           None \<Rightarrow> Inr d
                         | Some routePath \<Rightarrow>
                            (let fullPath = fullPathOf d obj routePath;
                                 h = handlerArgs d initialHandler rest
                             in Inr (d\<lparr>routes := routes d @
                                   [\<lparr>routeMethod = toUpperCase m, path = fullPath, filePath = file,
                                     line = locStart l,
                                     middlewares = hMiddlewares h, handler = hHandler h,
                                     controllerFilePath = hControllerFilePath h,
                                     controllerFunction = hControllerFunction h\<rparr>]\<rparr>))))))))"

text \<open>
  The third pass: the visitor runs on every node of the traversal in order; an exception
  leaves the traversal. The detector has been mutated in place up to that point, so the
  state at the exception is what \<open>parseFileForRoutes\<close>'s \<open>catch\<close> block leaves behind.
\<close>

fun routePass :: "RouteDetector \<Rightarrow> Node list \<Rightarrow> string \<Rightarrow> RouteDetector" where
  "routePass d [] file = d"
| "routePass d (n # ns) file =
     (case detectRoute d n file of Inl e \<Rightarrow> d | Inr d' \<Rightarrow> routePass d' ns file)"

definition parseFileForRoutes :: "Workspace \<Rightarrow> RouteDetector \<Rightarrow> string \<Rightarrow> RouteDetector" where
  "parseFileForRoutes ws d file =
     (case readAndParse ws file of
        Inl e \<Rightarrow> d
      | Inr ast \<Rightarrow>
          (let d0 = d\<lparr>controllerImports := Map.empty, functionImports := Map.empty\<rparr>;
               d1 = foldl (\<lambda>s n. detectRequires ws (detectImports ws s n file) n file)
                      d0 (traversal ast);
               d2 = foldl detectRouterPrefix d1 (traversal ast)
           in routePass d2 (traversal ast) file))"

definition clearDetector :: "RouteDetector \<Rightarrow> RouteDetector" where
  "clearDetector d =
     d\<lparr>routes := [], routerPrefixes := Map.empty,
       controllerImports := Map.empty, functionImports := Map.empty\<rparr>"

text \<open>\<open>detectRoutes\<close> returns the route list and leaves the detector as the scan built it.\<close>

definition detectRoutes :: "Workspace \<Rightarrow> RouteDetector \<Rightarrow> DetectedRoute list \<times> RouteDetector" where
  "detectRoutes ws d =
     (let d' = foldl (parseFileForRoutes ws) (clearDetector d) (findRouteFiles ws)
      in (routes d', d'))"

text \<open>
  \<open>detectRoutesInFile\<close>: copy the four fields, clear them, parse the one file, take
  the routes it found, and in the \<open>finally\<close> block assign the copies back.
  \<open>parseFileForRoutes\<close> catches its own exceptions, so the \<open>catch\<close> block here is
  never entered.
\<close>

definition detectRoutesInFile ::
  "Workspace \<Rightarrow> RouteDetector \<Rightarrow> string \<Rightarrow> DetectedRoute list \<times> RouteDetector" where
  "detectRoutesInFile ws d file =
     (let originalRoutes = routes d;
          originalPrefixes = routerPrefixes d;
          originalControllerImports = controllerImports d;
          originalFunctionImports = functionImports d;
          d1 = clearDetector d;
          d2 = parseFileForRoutes ws d1 file;
          found = routes d2
      in (found,
          d2\<lparr>routes := originalRoutes, routerPrefixes := originalPrefixes,
             controllerImports := originalControllerImports,
             functionImports := originalFunctionImports\<rparr>))"

text \<open>The seven canonical upper-case verbs of the specification.\<close>

definition canonicalVerbs :: "string list" where
  "canonicalVerbs = [''GET'', ''POST'', ''PUT'', ''DELETE'', ''PATCH'', ''HEAD'', ''OPTIONS'']"

definition canonicalRoutes :: "RouteDetector \<Rightarrow> bool" where
  "canonicalRoutes d = (\<forall>r \<in> set (routes d). routeMethod r \<in> set canonicalVerbs)"

subsection \<open>Two small workspaces\<close>

text \<open>
  \<open>app.js\<close> holds \<open>app.get('users', listUsers)\<close> on line 3;
  \<open>server.js\<close> holds \<open>app.use('/api', router)\<close> on line 2 and
  \<open>router.get('/users/:id', getUser)\<close> on line 5.
\<close>

definition appJs :: Node where
  "appJs = OtherNode [CallExpression (Some (SourceLocation 3 3))
      (MemberExpression (Identifier ''app'') (Identifier ''get''))
      [StringLiteral ''users'', Identifier ''listUsers'']]"

definition serverJs :: Node where
  "serverJs = OtherNode
     [CallExpression (Some (SourceLocation 2 2))
        (MemberExpression (Identifier ''app'') (Identifier ''use''))
        [StringLiteral ''/api'', Identifier ''router''],
      CallExpression (Some (SourceLocation 5 5))
        (MemberExpression (Identifier ''router'') (Identifier ''get''))
        [StringLiteral ''/users/:id'', Identifier ''getUser'']]"

definition appWorkspace :: Workspace where
  "appWorkspace =
     \<lparr>findFiles = (\<lambda>p. if p = ''**/app.js'' then Inr [''app.js''] else Inr []),
      readAndParse = (\<lambda>f. if f = ''app.js'' then Inr appJs else Inl IOError),
      existsSync = (\<lambda>f. False), path_dirname = (\<lambda>f. ''.''),
      path_resolve = (\<lambda>a b. a @ ''/'' @ b), path_extname = (\<lambda>f. []),
      path_join = (\<lambda>a b. a @ ''/'' @ b)\<rparr>"

definition serverWorkspace :: Workspace where
  "serverWorkspace =
     \<lparr>findFiles = (\<lambda>p. if p = ''**/server.js'' then Inr [''server.js''] else Inr []),
      readAndParse = (\<lambda>f. if f = ''server.js'' then Inr serverJs else Inl IOError),
      existsSync = (\<lambda>f. False), path_dirname = (\<lambda>f. ''.''),
      path_resolve = (\<lambda>a b. a @ ''/'' @ b), path_extname = (\<lambda>f. []),
      path_join = (\<lambda>a b. a @ ''/'' @ b)\<rparr>"

definition emptyDetector :: RouteDetector where
  "emptyDetector =
     \<lparr>workspaceRoot = ''/w'', routes = [], routerPrefixes = Map.empty,
      controllerImports = Map.empty, functionImports = Map.empty\<rparr>"

text \<open>A detector in the middle of a scan: one route found, one prefix registered.\<close>

definition busyDetector :: RouteDetector where
  "busyDetector =
     \<lparr>workspaceRoot = ''/w'',
      routes = [\<lparr>routeMethod = ''POST'', path = ''/login'', filePath = ''auth.js'', line = 7,
                 middlewares = [], handler = ''login'',
                 controllerFilePath = None, controllerFunction = None\<rparr>],
      routerPrefixes = [''router'' \<mapsto> ''/v1''],
      controllerImports = Map.empty, functionImports = Map.empty\<rparr>"

section \<open>ControllerResolver (payloadPredictor.ts)\<close>

record ControllerContext =
  route :: DetectedRoute
  reqBodyFields :: "string list"
  controllerCode :: string
  functionName :: string
  startLine :: nat
  endLine :: nat

text \<open>\<open>xs.slice(a, b)\<close> with JavaScript's treatment of negative and too large indices.\<close>

definition jsSlice :: "int \<Rightarrow> int \<Rightarrow> 'a list \<Rightarrow> 'a list" where
  "jsSlice a b xs =
     (let n = int (length xs);
          from = (if a < 0 then max (n + a) 0 else min a n);
          to = (if b < 0 then max (n + b) 0 else min b n)
      in take (nat (to - from)) (drop (nat from) xs))"

text \<open>\<open>lines.join("\n")\<close>.\<close>

fun joinLines :: "string list \<Rightarrow> string" where
  "joinLines [] = []"
| "joinLines [l] = l"
| "joinLines (l # ls) = l @ [CHR 0x0A] @ joinLines ls"

fun isFunctionValue :: "Node \<Rightarrow> bool" where
  "isFunctionValue (ArrowFunctionExpression params body) = True"
| "isFunctionValue (FunctionExpression fid params body) = True"
| "isFunctionValue n = False"

text \<open>
  The four visitors of the first traversal in \<open>findControllerFunctionInAST\<close>. When a
  node matches the searched name, \<open>controllerMatch\<close> gives the node stored in
  \<open>controllerFunction\<close> and the \<open>loc\<close> of the visited node, from which the line range
  is read.
\<close>

fun controllerMatch :: "string \<Rightarrow> Node \<Rightarrow> (Node \<times> SourceLocation option) option" where
  "controllerMatch targetFunction (FunctionDeclaration l fid params body) =
     (case fid of
        None \<Rightarrow> None
      | Some i \<Rightarrow>
         (if asIdentifier i = Some targetFunction
          then Some (FunctionDeclaration l fid params body, l) else None))"
| "controllerMatch targetFunction (VariableDeclarator l vid init) =
     (case init of
        None \<Rightarrow> None
      | Some i \<Rightarrow>
         (if asIdentifier vid = Some targetFunction \<and> isFunctionValue i
          then Some (i, l) else None))"
| "controllerMatch targetFunction (AssignmentExpression l lhs rhs) =
     (case asMemberExpression lhs of
        None \<Rightarrow> None
      | Some (obj, prop) \<Rightarrow>
         (if (asIdentifier obj = Some ''exports'' \<or> asIdentifier obj = Some ''module'') \<and>
             asIdentifier prop = Some targetFunction \<and> isFunctionValue rhs
          then Some (rhs, l) else None))"
| "controllerMatch targetFunction (ObjectMethod l key params body) =
     (if asIdentifier key = Some targetFunction
      then Some (ObjectMethod l key params body, l) else None)"
| "controllerMatch targetFunction n = None"

text \<open>The four local variables that the visitors assign.\<close>

record Search =
  foundFunction :: "Node option"
  foundName :: string
  foundStart :: nat
  foundEnd :: nat

definition visitController :: "string \<Rightarrow> Search \<Rightarrow> Node \<Rightarrow> Search" where
  "visitController targetFunction s node =
     (case controllerMatch targetFunction node of
        None \<Rightarrow> s
      | Some (fn, l) \<Rightarrow>
          \<lparr>foundFunction = Some fn, foundName = targetFunction,
           foundStart = locStart l, foundEnd = locEnd l\<rparr>)"

text \<open>The visitor of the second traversal: \<open>req.body.X\<close>.\<close>

definition extractReqBodyFields :: "string list \<Rightarrow> Node \<Rightarrow> string list" where
  "extractReqBodyFields acc node =
     (case asMemberExpression node of
        None \<Rightarrow> acc
      | Some (obj, prop) \<Rightarrow>
         (case asMemberExpression obj of
            None \<Rightarrow> acc
          | Some (obj2, prop2) \<Rightarrow>
             (if asIdentifier obj2 = Some ''req'' \<and> asIdentifier prop2 = Some ''body'' then
                (case asIdentifier prop of None \<Rightarrow> acc | Some fieldName \<Rightarrow> acc @ [fieldName])
              else acc)))"

definition findControllerFunctionInAST ::
  "Node \<Rightarrow> string \<Rightarrow> string \<Rightarrow> DetectedRoute \<Rightarrow> ControllerContext option" where
  "findControllerFunctionInAST ast targetFunction fileContent r =
     (let s = foldl (visitController targetFunction)
                \<lparr>foundFunction = None, foundName = targetFunction,
                 foundStart = 0, foundEnd = 0\<rparr>
                (traversal ast)
      in case foundFunction s of
           None \<Rightarrow> None
         | Some fn \<Rightarrow>
            (let bodyFields = foldl extractReqBodyFields [] (traversal ast);
                 lines = splitOn (CHR 0x0A) fileContent;
                 code = joinLines (jsSlice (int (foundStart s) - 1) (int (foundEnd s)) lines)
             in Some \<lparr>route = r, reqBodyFields = setToArray bodyFields, controllerCode = code,
                      functionName = foundName s,
                      startLine = foundStart s, endLine = foundEnd s\<rparr>))"

text \<open>The definitions matching a name, in traversal order.\<close>

definition controllerMatches :: "string \<Rightarrow> Node \<Rightarrow> (Node \<times> SourceLocation option) list" where
  "controllerMatches targetFunction ast =
     List.map_filter (controllerMatch targetFunction) (traversal ast)"

subsection \<open>A controller file with two definitions of one name\<close>

text \<open>
  \<open>function createUser(req, res) { ... }\<close> on lines 1 to 3, then
  \<open>exports.createUser = (req, res) => { ... }\<close> on lines 5 to 7.
\<close>

definition twoDefinitions :: Node where
  "twoDefinitions = OtherNode
     [FunctionDeclaration (Some (SourceLocation 1 3)) (Some (Identifier ''createUser''))
        [Identifier ''req'', Identifier ''res''] (OtherNode []),
      OtherNode
        [AssignmentExpression (Some (SourceLocation 5 7))
           (MemberExpression (Identifier ''exports'') (Identifier ''createUser''))
           (ArrowFunctionExpression [Identifier ''req'', Identifier ''res''] (OtherNode []))]]"

definition someRoute :: DetectedRoute where
  "someRoute =
     \<lparr>routeMethod = ''POST'', path = ''/users'', filePath = ''users.js'', line = 9,
      middlewares = [], handler = ''createUser'',
      controllerFilePath = None, controllerFunction = None\<rparr>"

text \<open>The line range of a match and the line range recorded in a context.\<close>

definition matchRange :: "Node \<times> SourceLocation option \<Rightarrow> nat \<times> nat" where
  "matchRange m = (locStart (snd m), locEnd (snd m))"

definition recordedRange :: "ControllerContext \<Rightarrow> nat \<times> nat" where
  "recordedRange c = (startLine c, endLine c)"

section \<open>JavaScript values and documents\<close>

text \<open>
  The values stored in documents and carried in payload fields. Numbers are rationals;
  a \<open>Date\<close> carries the text that \<open>toISOString()\<close> returns and an \<open>ObjectId\<close> the text
  that \<open>toString()\<close> returns. Property lookup sees the own properties of a plain object
  and the indices and \<open>length\<close> of an array; inherited methods are not modelled.
\<close>

datatype jsval =
    JUndefined
  | JNull
  | JBool bool
  | JNum rat
  | JStr string
  | JDate string
  | JObjectId string
  | JArr "jsval list"
  | JObj "(string \<times> jsval) list"

text \<open>Truthiness of a value (\<open>if (v)\<close>, \<open>!v\<close>, \<open>v && ...\<close>).\<close>

fun jsTruthy :: "jsval \<Rightarrow> bool" where
  "jsTruthy JUndefined = False"
| "jsTruthy JNull = False"
| "jsTruthy (JBool b) = b"
| "jsTruthy (JNum x) = (x \<noteq> 0)"
| "jsTruthy (JStr s) = (s \<noteq> [])"
| "jsTruthy v = True"

text \<open>\<open>typeof v === "object"\<close>: true for \<open>null\<close> as well.\<close>

fun isObjectType :: "jsval \<Rightarrow> bool" where
  "isObjectType JNull = True"
| "isObjectType (JDate s) = True"
| "isObjectType (JObjectId s) = True"
| "isObjectType (JArr xs) = True"
| "isObjectType (JObj kvs) = True"
| "isObjectType v = False"

fun isNullish :: "jsval \<Rightarrow> bool" where
  "isNullish JUndefined = True"
| "isNullish JNull = True"
| "isNullish v = False"

text \<open>The decimal text of an array index: \<open>"0"\<close>, \<open>"1"\<close>, ... without leading zeros.\<close>

definition digitValue :: "char \<Rightarrow> nat option" where
  "digitValue c = map_of (zip ''0123456789'' [0, 1, 2, 3, 4, 5, 6, 7, 8, 9]) c"

fun digitsToNat :: "nat \<Rightarrow> string \<Rightarrow> nat option" where
  "digitsToNat acc [] = Some acc"
| "digitsToNat acc (c # cs) =
     (case digitValue c of None \<Rightarrow> None | Some d \<Rightarrow> digitsToNat (10 * acc + d) cs)"

definition arrayIndex :: "string \<Rightarrow> nat option" where
  "arrayIndex s =
     (if s = [] \<or> (length s > 1 \<and> hd s = CHR ''0'') then None else digitsToNat 0 s)"

text \<open>\<open>key in v\<close> and \<open>v[key]\<close> for a value of object type that is not \<open>null\<close>.\<close>

fun hasProperty :: "jsval \<Rightarrow> string \<Rightarrow> bool" where
  "hasProperty (JObj kvs) key = (map_of kvs key \<noteq> None)"
| "hasProperty (JArr xs) key =
     (key = ''length'' \<or> (case arrayIndex key of None \<Rightarrow> False | Some i \<Rightarrow> i < length xs))"
| "hasProperty v key = False"

fun getProperty :: "jsval \<Rightarrow> string \<Rightarrow> jsval" where
  "getProperty (JObj kvs) key = (case map_of kvs key of None \<Rightarrow> JUndefined | Some v \<Rightarrow> v)"
| "getProperty (JArr xs) key =
     (if key = ''length'' then JNum (of_nat (length xs))
      else (case arrayIndex key of
              None \<Rightarrow> JUndefined
            | Some i \<Rightarrow> if i < length xs then xs ! i else JUndefined))"
| "getProperty v key = JUndefined"

fun isObjectId :: "jsval \<Rightarrow> bool" where
  "isObjectId (JObjectId s) = True"
| "isObjectId v = False"

text \<open>A stable sort with a JavaScript comparator; \<open>after a b\<close> says that the comparator
  is positive on \<open>(a, b)\<close>, that is, \<open>a\<close> has to come after \<open>b\<close>.\<close>

fun jsInsert :: "('a \<Rightarrow> 'a \<Rightarrow> bool) \<Rightarrow> 'a \<Rightarrow> 'a list \<Rightarrow> 'a list" where
  "jsInsert after x [] = [x]"
| "jsInsert after x (y # ys) =
     (if after x y then y # jsInsert after x ys else x # y # ys)"

definition jsSort :: "('a \<Rightarrow> 'a \<Rightarrow> bool) \<Rightarrow> 'a list \<Rightarrow> 'a list" where
  "jsSort after xs = foldr (jsInsert after) xs []"

section \<open>MongoConnector (mongoConnector.ts)\<close>

text \<open>
  The handle that \<open>db.collection(name)\<close> returns, as far as this program uses it. Each
  operation is one round trip to the server and may throw. In the order of the fields:
  \<open>countDocuments()\<close>; \<open>find({}).toArray()\<close>; \<open>find({}).skip(s).limit(l).toArray()\<close>;
  \<open>aggregate([{$sample: {size: n}}]).toArray()\<close>;
  \<open>find({}, {projection: ...}).limit(n).toArray()\<close> with the projection of
  \<open>getObjectIdsFromCollection\<close>;
  \<open>find({[f]: {$exists: true, $type: "objectId"}}).limit(n).toArray()\<close>;
  \<open>find({_id: {$in: ids}}).toArray()\<close>;
  \<open>find({[f]: {$exists: true, $ne: null}}).limit(n).toArray()\<close>.
\<close>

record Collection =
  countDocuments :: "error + nat"
  findAll :: "error + jsval list"
  findSkipLimit :: "nat \<Rightarrow> nat \<Rightarrow> error + jsval list"
  aggregateSample :: "nat \<Rightarrow> error + jsval list"
  findProjectedLimit :: "nat \<Rightarrow> error + jsval list"
  findWithObjectIdField :: "string \<Rightarrow> nat \<Rightarrow> error + jsval list"
  findByIds :: "jsval list \<Rightarrow> error + jsval list"
  findWithField :: "string \<Rightarrow> nat \<Rightarrow> error + jsval list"

record Db =
  collection :: "string \<Rightarrow> Collection"
  listCollectionNames :: "error + string list"

record MongoConnector =
  isConnected :: bool
  db :: "Db option"

definition isAvailable :: "MongoConnector \<Rightarrow> bool" where
  "isAvailable c = (isConnected c \<and> db c \<noteq> None)"

definition getCollection :: "MongoConnector \<Rightarrow> string \<Rightarrow> Collection option" where
  "getCollection c collectionName =
     (case db c of
        None \<Rightarrow> None
      | Some database \<Rightarrow>
          if \<not> isAvailable c then None else Some (collection database collectionName))"

definition listCollections :: "MongoConnector \<Rightarrow> string list" where
  "listCollections c =
     (case db c of
        None \<Rightarrow> []
      | Some database \<Rightarrow>
          if \<not> isAvailable c then []
          else (case listCollectionNames database of Inl e \<Rightarrow> [] | Inr names \<Rightarrow> names))"


subsection \<open>A reachable MongoDB server\<close>

text \<open>
  What the operations return on a healthy connection to a collection holding \<open>docs\<close>
  in natural order. A cursor limit of 0 means no limit, as the MongoDB manual states for
  \<open>cursor.limit()\<close>. \<open>$sample\<close> draws \<open>n\<close> distinct documents (all of them when the
  collection has fewer); \<open>rnd\<close> is the server's source of randomness. Queries address
  top-level fields.
\<close>

fun sampleDocs :: "(nat \<Rightarrow> nat) \<Rightarrow> nat \<Rightarrow> 'doc list \<Rightarrow> nat \<Rightarrow> 'doc list" where
  "sampleDocs rnd k docs 0 = []"
| "sampleDocs rnd k docs (Suc n) =
     (if docs = [] then []
      else (let i = rnd k mod length docs
            in docs ! i # sampleDocs rnd (Suc k) (take i docs @ drop (Suc i) docs) n))"

definition cursorLimit :: "'doc list \<Rightarrow> nat \<Rightarrow> 'doc list" where
  "cursorLimit docs l = (if l = 0 then docs else take l docs)"

definition cursorSkipLimit :: "'doc list \<Rightarrow> nat \<Rightarrow> nat \<Rightarrow> 'doc list" where
  "cursorSkipLimit docs s l = cursorLimit (drop s docs) l"

definition projectedFields :: "string list" where
  "projectedFields = [''_id'', ''name'', ''title'', ''username'', ''email'', ''displayName'']"

fun project :: "jsval \<Rightarrow> jsval" where
  "project (JObj kvs) = JObj (filter (\<lambda>kv. fst kv \<in> set projectedFields) kvs)"
| "project v = v"

definition mongoCollection :: "(nat \<Rightarrow> nat) \<Rightarrow> jsval list \<Rightarrow> Collection" where
  "mongoCollection rnd docs =
     \<lparr>countDocuments = Inr (length docs),
      findAll = Inr docs,
      findSkipLimit = (\<lambda>s l. Inr (cursorSkipLimit docs s l)),
      aggregateSample = (\<lambda>n. Inr (sampleDocs rnd 0 docs n)),
      findProjectedLimit = (\<lambda>n. Inr (map project (cursorLimit docs n))),
      findWithObjectIdField =
        (\<lambda>f n. Inr (cursorLimit (filter (\<lambda>d. isObjectId (getProperty d f)) docs) n)),
      findByIds = (\<lambda>ids. Inr (filter (\<lambda>d. getProperty d ''_id'' \<in> set ids) docs)),
      findWithField =
        (\<lambda>f n. Inr (cursorLimit (filter (\<lambda>d. \<not> isNullish (getProperty d f)) docs) n))\<rparr>"

text \<open>A connected database: \<open>store\<close> gives the documents of each collection and \<open>names\<close>
  lists the collections that exist.\<close>

definition connected :: "(nat \<Rightarrow> nat) \<Rightarrow> string list \<Rightarrow> (string \<Rightarrow> jsval list) \<Rightarrow> MongoConnector" where
  "connected rnd names store =
     \<lparr>isConnected = True,
      db = Some \<lparr>collection = (\<lambda>n. mongoCollection rnd (store n)),
                 listCollectionNames = Inr names\<rparr>\<rparr>"

definition disconnected :: MongoConnector where
  "disconnected = \<lparr>isConnected = False, db = None\<rparr>"




section \<open>JavaScript numbers\<close>

text \<open>
  A JavaScript number is an IEEE 754 double. The finite doubles are rationals, and an
  arithmetic operation returns the exact result rounded to the nearest double, ties to
  the even significand. \<open>dbl\<close> is that rounding for the normal range (53 significant
  bits; overflow and subnormal numbers do not occur in the scores of this program). A
  decimal literal such as \<open>0.3\<close> denotes \<open>dbl (3 / 10)\<close>.
\<close>

definition pow2 :: "int \<Rightarrow> rat" where
  "pow2 k = (if k \<ge> 0 then 2 ^ nat k else 1 / 2 ^ nat (- k))"

text \<open>The exponent \<open>e\<close> with \<open>2 ^ e \<le> q < 2 ^ (e + 1)\<close>, for positive \<open>q\<close>.\<close>

definition binaryExponent :: "rat \<Rightarrow> int" where
  "binaryExponent q =
     (let k = bitlen (fst (quotient_of q)) - bitlen (snd (quotient_of q))
      in if pow2 k \<le> q then k else k - 1)"

definition roundHalfEven :: "rat \<Rightarrow> int" where
  "roundHalfEven x =
     (let f = \<lfloor>x\<rfloor>; d = x - of_int f
      in if d < 1 / 2 then f else if d > 1 / 2 then f + 1 else if even f then f else f + 1)"

definition dbl :: "rat \<Rightarrow> rat" where
  "dbl q =
     (if q = 0 then 0
      else (let m = \<bar>q\<bar>; u = pow2 (binaryExponent m - 52);
                r = of_int (roundHalfEven (m / u)) * u
            in if q < 0 then - r else r))"

definition fadd :: "rat \<Rightarrow> rat \<Rightarrow> rat" where
  "fadd a b = dbl (a + b)"

definition fsub :: "rat \<Rightarrow> rat \<Rightarrow> rat" where
  "fsub a b = dbl (a - b)"

section \<open>ObjectIdResolver (objectIdResolver.ts)\<close>

text \<open>\<open>errorMessage\<close> is either a text written in the source or the \<open>message\<close> of a
  caught exception.\<close>

datatype ErrorMessage = Text string | MessageOf error

text \<open>An \<open>ObjectId\<close> is represented by its 24-digit hexadecimal text.\<close>

record ResolvedObjectId =
  objectId :: string
  sourceCollection :: string
  displayInfo :: jsval
  idConfidence :: rat

record ObjectIdResolution =
  fieldName :: string
  suggestedIds :: "ResolvedObjectId list"
  possibleCollections :: "string list"
  success :: bool
  errorMessage :: "ErrorMessage option"

definition FIELD_COLLECTION_MAPPINGS :: "(string \<times> string list) list" where
  "FIELD_COLLECTION_MAPPINGS =
    [(''userId'', [''users'', ''user'', ''accounts'', ''profiles'']),
     (''user_id'', [''users'', ''user'', ''accounts'', ''profiles'']),
     (''authorId'', [''users'', ''user'', ''authors'', ''profiles'']),
     (''author_id'', [''users'', ''user'', ''authors'', ''profiles'']),
     (''ownerId'', [''users'', ''user'', ''owners'']),
     (''owner_id'', [''users'', ''user'', ''owners'']),
     (''createdBy'', [''users'', ''user'', ''accounts'']),
     (''updatedBy'', [''users'', ''user'', ''accounts'']),
     (''productId'', [''products'', ''product'', ''items'']),
     (''product_id'', [''products'', ''product'', ''items'']),
     (''itemId'', [''items'', ''item'', ''products'']),
     (''item_id'', [''items'', ''item'', ''products'']),
     (''orderId'', [''orders'', ''order'', ''purchases'']),
     (''order_id'', [''orders'', ''order'', ''purchases'']),
     (''purchaseId'', [''purchases'', ''purchase'', ''orders'']),
     (''purchase_id'', [''purchases'', ''purchase'', ''orders'']),
     (''categoryId'', [''categories'', ''category'', ''tags'']),
     (''category_id'', [''categories'', ''category'', ''tags'']),
     (''tagId'', [''tags'', ''tag'', ''categories'']),
     (''tag_id'', [''tags'', ''tag'', ''categories'']),
     (''postId'', [''posts'', ''post'', ''articles'', ''blogs'']),
     (''post_id'', [''posts'', ''post'', ''articles'', ''blogs'']),
     (''articleId'', [''articles'', ''article'', ''posts'']),
     (''article_id'', [''articles'', ''article'', ''posts'']),
     (''commentId'', [''comments'', ''comment'', ''replies'']),
     (''comment_id'', [''comments'', ''comment'', ''replies'']),
     (''fileId'', [''files'', ''file'', ''uploads'', ''attachments'']),
     (''file_id'', [''files'', ''file'', ''uploads'', ''attachments'']),
     (''uploadId'', [''uploads'', ''upload'', ''files'']),
     (''upload_id'', [''uploads'', ''upload'', ''files'']),
     (''sessionId'', [''sessions'', ''session'', ''tokens'']),
     (''session_id'', [''sessions'', ''session'', ''tokens'']),
     (''tokenId'', [''tokens'', ''token'', ''sessions'']),
     (''token_id'', [''tokens'', ''token'', ''sessions'']),
     (''organizationId'', [''organizations'', ''organization'', ''orgs'', ''companies'']),
     (''organization_id'', [''organizations'', ''organization'', ''orgs'', ''companies'']),
     (''companyId'', [''companies'', ''company'', ''organizations'']),
     (''company_id'', [''companies'', ''company'', ''organizations'']),
     (''projectId'', [''projects'', ''project'']),
     (''project_id'', [''projects'', ''project'']),
     (''taskId'', [''tasks'', ''task'', ''todos'']),
     (''task_id'', [''tasks'', ''task'', ''todos''])]"

text \<open>
  The table is an object literal, so a lookup by name also finds what every object
  inherits. Those values are truthy but cannot be spread into an array.
\<close>

definition objectPrototypeKeys :: "string list" where
  "objectPrototypeKeys =
     [''constructor'', ''__proto__'', ''hasOwnProperty'', ''isPrototypeOf'',
      ''propertyIsEnumerable'', ''toLocaleString'', ''toString'', ''valueOf'',
      ''__defineGetter__'', ''__defineSetter__'', ''__lookupGetter__'', ''__lookupSetter__'']"

definition getPossibleCollections :: "string \<Rightarrow> error + string list" where
  "getPossibleCollections name =
     (case map_of FIELD_COLLECTION_MAPPINGS name of
        Some collections \<Rightarrow> Inr collections
      | None \<Rightarrow>
          if name \<in> set objectPrototypeKeys then Inl TypeError
          else
            (case find (\<lambda>entry. toLowerCase (fst entry) = toLowerCase name)
                    FIELD_COLLECTION_MAPPINGS of
               Some entry \<Rightarrow> Inr (snd entry)
             | None \<Rightarrow> Inr []))"

text \<open>\<open>s.replace(/suffix$/, "")\<close>.\<close>

definition removeSuffix :: "string \<Rightarrow> string \<Rightarrow> string" where
  "removeSuffix suffix s = (if endsWith s suffix then take (length s - length suffix) s else s)"

definition inferCollectionFromFieldName :: "string \<Rightarrow> string list" where
  "inferCollectionFromFieldName name =
     (let lowerFieldName = toLowerCase name;
          withoutSuffix =
            removeSuffix ''_ref'' (removeSuffix ''ref''
              (removeSuffix ''_id'' (removeSuffix ''id'' lowerFieldName)))
      in if withoutSuffix \<noteq> [] \<and> withoutSuffix \<noteq> lowerFieldName then
           [withoutSuffix, withoutSuffix @ ''s''] @
           (if endsWith withoutSuffix ''y'' then [sliceDropLast withoutSuffix @ ''ies''] else [])
         else [])"

definition displayFields :: "string list" where
  "displayFields =
     [''name'', ''title'', ''username'', ''email'', ''displayName'', ''firstName'', ''lastName'']"

fun nonEmptyString :: "jsval \<Rightarrow> string option" where
  "nonEmptyString (JStr s) = (if s = [] then None else Some s)"
| "nonEmptyString v = None"

definition extractDisplayInfo :: "jsval \<Rightarrow> jsval" where
  "extractDisplayInfo doc =
     (let info = List.map_filter
                   (\<lambda>f. map_option (\<lambda>s. (f, JStr s)) (nonEmptyString (getProperty doc f)))
                   displayFields;
          info' = (case (map_of info ''firstName'', map_of info ''lastName'') of
                     (Some (JStr firstName), Some (JStr lastName)) \<Rightarrow>
                       info @ [(''fullName'', JStr (firstName @ '' '' @ lastName))]
                   | _ \<Rightarrow> info)
      in if info' = [] then JNull else JObj info')"

text \<open>\<open>doc._id\<close> as the text of an \<open>ObjectId\<close>; \<open>idText\<close> stands for \<open>toString()\<close> on
  an identifier of another type.\<close>

fun idOf :: "(jsval \<Rightarrow> string) \<Rightarrow> jsval \<Rightarrow> string" where
  "idOf idText doc =
     (case getProperty doc ''_id'' of JObjectId h \<Rightarrow> h | v \<Rightarrow> idText v)"

definition findReferencedObjectIds ::
  "(jsval \<Rightarrow> string) \<Rightarrow> MongoConnector \<Rightarrow> string \<Rightarrow> string \<Rightarrow> string \<Rightarrow> nat
     \<Rightarrow> ResolvedObjectId list" where
  "findReferencedObjectIds idText c sourceColl targetColl name limit =
     (case (getCollection c sourceColl, getCollection c targetColl) of
        (Some sourceCol, Some targetCol) \<Rightarrow>
          (case findWithObjectIdField targetCol name (limit * 2) of
             Inl e \<Rightarrow> []
           | Inr referencingDocs \<Rightarrow>
              if referencingDocs = [] then []
              else
                (let referencedObjectIds =
                       filter isObjectId (map (\<lambda>doc. getProperty doc name) referencingDocs)
                 in case findByIds sourceCol referencedObjectIds of
                      Inl e \<Rightarrow> []
                    | Inr referencedDocs \<Rightarrow>
                        map (\<lambda>doc. \<lparr>objectId = idOf idText doc, sourceCollection = sourceColl,
                                     displayInfo = extractDisplayInfo doc,
                                     idConfidence = dbl (9 / 10)\<rparr>) referencedDocs))
      | _ \<Rightarrow> [])"

definition getObjectIdsFromCollection ::
  "(jsval \<Rightarrow> string) \<Rightarrow> MongoConnector \<Rightarrow> string \<Rightarrow> string \<Rightarrow> string option \<Rightarrow> nat
     \<Rightarrow> ResolvedObjectId list" where
  "getObjectIdsFromCollection idText c collectionName name contextCollection limit =
     (case getCollection c collectionName of
        None \<Rightarrow> []
      | Some coll \<Rightarrow>
         (let referencedIds =
                (if truthy contextCollection \<and> contextCollection \<noteq> Some collectionName
                 then findReferencedObjectIds idText c collectionName (the contextCollection)
                        name limit
                 else [])
          in if length referencedIds \<ge> limit then referencedIds
             else
               (case findProjectedLimit coll (limit * 2) of
                  Inl e \<Rightarrow> []
                | Inr documents \<Rightarrow>
                   (let randomIds =
                          map (\<lambda>doc. \<lparr>objectId = idOf idText doc,
                                       sourceCollection = collectionName,
                                       displayInfo = extractDisplayInfo doc,
                                       idConfidence =
                                         (if length referencedIds > 0 then dbl (1 / 2) else dbl (8 / 10))\<rparr>)
                              documents;
                        existingIds = map objectId referencedIds;
                        filteredRandomIds =
                          filter (\<lambda>r. objectId r \<notin> set existingIds) randomIds
                    in take limit (referencedIds @ filteredRandomIds)))))"

text \<open>The second half of \<open>resolveObjectIdField\<close>: collect from every collection in
  \<open>existingCollections\<close>, sort by descending confidence, keep the first \<open>limit\<close>.\<close>

definition collectSuggestions ::
  "(jsval \<Rightarrow> string) \<Rightarrow> MongoConnector \<Rightarrow> string \<Rightarrow> string option \<Rightarrow> nat \<Rightarrow> string list
     \<Rightarrow> ObjectIdResolution" where
  "collectSuggestions idText c name contextCollection limit existingCollections =
     (let allSuggestedIds =
            concat (map (\<lambda>collectionName.
                           getObjectIdsFromCollection idText c collectionName name
                             contextCollection limit) existingCollections);
          sorted = jsSort (\<lambda>a b. fsub (idConfidence b) (idConfidence a) > 0) allSuggestedIds
      in \<lparr>fieldName = name, suggestedIds = take limit sorted,
          possibleCollections = existingCollections, success = True,
          errorMessage = None\<rparr>)"

text \<open>
  \<open>resolveObjectIdField\<close>. The only statement of the \<open>try\<close> block that throws is the
  spread in \<open>getPossibleCollections\<close>; \<open>listCollections\<close> and
  \<open>getObjectIdsFromCollection\<close> catch their own exceptions.
\<close>

definition resolveObjectIdField ::
  "(jsval \<Rightarrow> string) \<Rightarrow> MongoConnector \<Rightarrow> string \<Rightarrow> string option \<Rightarrow> nat
     \<Rightarrow> ObjectIdResolution" where
  "resolveObjectIdField idText c name contextCollection limit =
     (if \<not> isAvailable c then
        \<lparr>fieldName = name, suggestedIds = [], possibleCollections = [], success = False,
         errorMessage = Some (Text ''MongoDB not connected'')\<rparr>
      else
        (case getPossibleCollections name of
           Inl e \<Rightarrow>
             \<lparr>fieldName = name, suggestedIds = [], possibleCollections = [], success = False,
              errorMessage = Some (MessageOf e)\<rparr>
         | Inr possible \<Rightarrow>
            (let availableCollections = listCollections c;
                 existingCollections = filter (\<lambda>col. col \<in> set availableCollections) possible
             in if existingCollections = [] then
                  (let inferredCollections =
                         filter (\<lambda>col. col \<in> set availableCollections)
                           (inferCollectionFromFieldName name)
                   in if inferredCollections = [] then
                        \<lparr>fieldName = name, suggestedIds = [],
                         possibleCollections = availableCollections, success = True,
                         errorMessage =
                           Some (Text (''No matching collections found for field ''
                                       @ [CHR 0x27] @ name @ [CHR 0x27]))\<rparr>
                      else collectSuggestions idText c name contextCollection limit
                             inferredCollections)
                else collectSuggestions idText c name contextCollection limit
                       existingCollections)))"

text \<open>\<open>resolveMultipleObjectIds\<close>: the \<open>Map\<close> from each field to its resolution, with the
  default limit 5.\<close>

definition resolveMultipleObjectIds ::
  "(jsval \<Rightarrow> string) \<Rightarrow> MongoConnector \<Rightarrow> string list \<Rightarrow> string option
     \<Rightarrow> (string \<rightharpoonup> ObjectIdResolution)" where
  "resolveMultipleObjectIds idText c names contextCollection =
     map_of (map (\<lambda>f. (f, resolveObjectIdField idText c f contextCollection 5)) names)"

text \<open>A database with the collections \<open>orders\<close> and \<open>invoices\<close> only.\<close>

definition ordersOnly :: MongoConnector where
  "ordersOnly = connected (\<lambda>k. k) [''orders'', ''invoices''] (\<lambda>n. [])"

text \<open>The text of an identifier that is not an \<open>ObjectId\<close>, for the examples.\<close>

definition plainIdText :: "jsval \<Rightarrow> string" where
  "plainIdText v = (case v of JStr s \<Rightarrow> s | _ \<Rightarrow> ''[object Object]'')"

section \<open>CollectionInferencer (collectionInferencer.ts)\<close>

record CollectionInference =
  collectionName :: string
  confidence :: rat
  reasoning :: string
  alternativeNames :: "string list"

definition SPECIAL_CASES :: "(string \<times> string list) list" where
  "SPECIAL_CASES =
     [(''auth'', [''users'', ''accounts'']),
      (''login'', [''users'', ''accounts'']),
      (''register'', [''users'', ''accounts'']),
      (''signup'', [''users'', ''accounts'']),
      (''signin'', [''users'', ''accounts'']),
      (''logout'', [''users'', ''sessions'']),
      (''profile'', [''users'', ''profiles'']),
      (''me'', [''users'', ''profiles'']),
      (''account'', [''users'', ''accounts'']),
      (''session'', [''sessions'', ''users''])]"

definition IGNORED_SEGMENTS :: "string list" where
  "IGNORED_SEGMENTS =
     [''api'', ''v1'', ''v2'', ''v3'', ''admin'', ''public'', ''private'', ''endpoints'']"

definition parseRoutePath :: "string \<Rightarrow> string list" where
  "parseRoutePath p =
     map toLowerCase
       (filter (\<lambda>segment. segment \<noteq> [] \<and> \<not> startsWith segment '':'' \<and>
                           \<not> startsWith segment ''*'' \<and>
                           toLowerCase segment \<notin> set IGNORED_SEGMENTS)
          (splitOn (CHR ''/'') p))"

definition pluralizeToSingular :: "string \<Rightarrow> string" where
  "pluralizeToSingular word =
     (if endsWith word ''ies'' then take (length word - 3) word @ ''y''
      else if endsWith word ''ves'' then take (length word - 3) word @ ''f''
      else if endsWith word ''s'' then take (length word - 1) word
      else word)"

definition pluralizeToPlural :: "string \<Rightarrow> string" where
  "pluralizeToPlural word =
     (if endsWith word ''y'' then take (length word - 1) word @ ''ies''
      else if endsWith word ''f'' then take (length word - 1) word @ ''ves''
      else word @ ''s'')"

definition isPlural :: "string \<Rightarrow> bool" where
  "isPlural word = (endsWith word ''s'' \<or> endsWith word ''ies'' \<or> endsWith word ''ves'')"

definition commonResources :: "string list" where
  "commonResources =
     [''users'', ''user'', ''products'', ''product'', ''orders'', ''order'', ''items'',
      ''item'', ''posts'', ''post'', ''comments'', ''comment'', ''categories'', ''category'',
      ''tags'', ''tag'', ''files'', ''file'']"

definition calculateSegmentConfidence :: "string \<Rightarrow> string \<Rightarrow> rat" where
  "calculateSegmentConfidence segment verb =
     (let c0 = dbl (1 / 2);
          c1 = (if segment \<in> set commonResources then fadd c0 (dbl (3 / 10)) else c0);
          c2 = (if isPlural segment then fadd c1 (dbl (2 / 10)) else c1);
          c3 = (if verb \<in> set [''GET'', ''POST'', ''PUT'', ''PATCH'', ''DELETE'']
                then fadd c2 (dbl (1 / 10)) else c2)
      in min c3 (dbl 1))"

definition inferFromPathSegments :: "string list \<Rightarrow> DetectedRoute \<Rightarrow> CollectionInference" where
  "inferFromPathSegments segments r =
     (case segments of
        [] \<Rightarrow>
          \<lparr>collectionName = ''documents'', confidence = dbl (1 / 10),
           reasoning = ''No meaningful segments found, using default'',
           alternativeNames = [''items'', ''data'']\<rparr>
      | resourceSegment # others \<Rightarrow>
          (let name = pluralizeToSingular resourceSegment
           in \<lparr>collectionName = name,
               confidence = calculateSegmentConfidence resourceSegment (routeMethod r),
               reasoning = ''Inferred from path segment: '' @ resourceSegment,
               alternativeNames =
                 filter (\<lambda>n. n \<noteq> name) [resourceSegment, pluralizeToPlural name]\<rparr>))"

definition authKeywords :: "string list" where
  "authKeywords =
     [''login'', ''logout'', ''auth'', ''signin'', ''signup'', ''register'', ''token'',
      ''session'']"

definition isAuthRoute :: "DetectedRoute \<Rightarrow> bool" where
  "isAuthRoute r =
     (let pathLower = toLowerCase (path r)
      in (\<exists>keyword \<in> set authKeywords. includesStr pathLower keyword) \<or>
         (routeMethod r = ''POST'' \<and> includesStr pathLower ''password''))"

text \<open>
  The loop of \<open>inferFromSpecialCases\<close>. \<open>SPECIAL_CASES\<close> is an object literal: the
  lookup of a segment such as \<open>constructor\<close> finds an inherited value, which is truthy
  but has no \<open>slice\<close>, and the call throws.
\<close>

fun specialCaseLoop :: "string list \<Rightarrow> (error + CollectionInference) option" where
  "specialCaseLoop [] = None"
| "specialCaseLoop (segment # others) =
     (case map_of SPECIAL_CASES segment of
        Some potentialCollections \<Rightarrow>
          Some (Inr \<lparr>collectionName = hd potentialCollections, confidence = dbl (8 / 10),
                     reasoning = ''Special case mapping for '' @ [CHR 0x27] @ segment
                                 @ [CHR 0x27],
                     alternativeNames = tl potentialCollections\<rparr>)
      | None \<Rightarrow>
          if segment \<in> set objectPrototypeKeys then Some (Inl TypeError)
          else specialCaseLoop others)"

definition inferFromSpecialCases ::
  "string list \<Rightarrow> DetectedRoute \<Rightarrow> error + CollectionInference" where
  "inferFromSpecialCases segments r =
     (case specialCaseLoop segments of
        Some result \<Rightarrow> result
      | None \<Rightarrow>
          if isAuthRoute r then
            Inr \<lparr>collectionName = ''users'', confidence = dbl (7 / 10),
                 reasoning = ''Appears to be authentication-related route'',
                 alternativeNames = [''accounts'', ''profiles'']\<rparr>
          else
            Inr \<lparr>collectionName = ''unknown'', confidence = dbl 0,
                 reasoning = ''No special cases matched'', alternativeNames = []\<rparr>)"

definition inferFromRouteMethod :: "string list \<Rightarrow> DetectedRoute \<Rightarrow> CollectionInference" where
  "inferFromRouteMethod segments r =
     (case segments of
        [] \<Rightarrow>
          \<lparr>collectionName = ''unknown'', confidence = dbl 0,
           reasoning = ''No segments to analyze'', alternativeNames = []\<rparr>
      | resourceSegment # others \<Rightarrow>
          (let c0 = dbl (3 / 10);
               hasIdParam = (includesStr (path r) '':id'' \<or> includesStr (path r) ''/:'');
               c1 = (if hasIdParam \<and> routeMethod r \<in> set [''GET'', ''PUT'', ''PATCH'', ''DELETE'']
                     then fadd c0 (dbl (2 / 10)) else c0);
               c2 = (if routeMethod r \<in> set [''POST''] \<and> \<not> hasIdParam
                     then fadd c1 (dbl (2 / 10)) else c1);
               name = pluralizeToSingular resourceSegment
           in \<lparr>collectionName = name, confidence = c2,
               reasoning = ''REST pattern: '' @ routeMethod r @ '' suggests '' @ [CHR 0x27]
                           @ name @ [CHR 0x27] @ '' collection'',
               alternativeNames = [resourceSegment]\<rparr>))"

definition genericNames :: "string list" where
  "genericNames = [''index'', ''routes'', ''route'', ''router'', ''app'', ''server'', ''api'']"

text \<open>\<open>s.replace(/\.(js|ts)$/, "")\<close>.\<close>

definition stripScriptExtension :: "string \<Rightarrow> string" where
  "stripScriptExtension s =
     (if endsWith s ''.js'' \<or> endsWith s ''.ts'' then take (length s - 3) s else s)"

definition isPathSeparator :: "char \<Rightarrow> bool" where
  "isPathSeparator c = (c = CHR ''/'' \<or> c = CHR 0x5C)"

definition inferFromFileName :: "string \<Rightarrow> CollectionInference" where
  "inferFromFileName file =
     (let fileName = stripScriptExtension (last (splitWhen isPathSeparator file));
          cleanFileName = toLowerCase fileName
      in if cleanFileName \<in> set genericNames then
           \<lparr>collectionName = ''unknown'', confidence = dbl 0,
            reasoning = ''Generic file name provides no collection hints'',
            alternativeNames = []\<rparr>
         else
           (let pathParts = splitWhen isPathSeparator (toLowerCase file);
                potentialCollections =
                  filter (\<lambda>part. length part > 2)
                    (filter (\<lambda>part. \<not> includesStr part ''.'' \<and> part \<notin> set IGNORED_SEGMENTS)
                       pathParts)
            in if potentialCollections \<noteq> [] then
                 \<lparr>collectionName = pluralizeToSingular (last potentialCollections),
                  confidence = dbl (4 / 10),
                  reasoning = ''Inferred from file path: '' @ fileName,
                  alternativeNames = butlast potentialCollections\<rparr>
               else
                 \<lparr>collectionName = ''unknown'', confidence = dbl 0,
                  reasoning = ''File path provides no collection hints'',
                  alternativeNames = []\<rparr>))"

text \<open>\<open>inferences.reduce((best, current) => current.confidence > best.confidence ? current : best)\<close>.\<close>

definition bestOf :: "CollectionInference \<Rightarrow> CollectionInference list \<Rightarrow> CollectionInference" where
  "bestOf first others =
     foldl (\<lambda>best current. if confidence current > confidence best then current else best)
       first others"

definition inferCollectionName :: "DetectedRoute \<Rightarrow> error + CollectionInference" where
  "inferCollectionName r =
     (let pathSegments = parseRoutePath (path r);
          fromPath = inferFromPathSegments pathSegments r
      in case inferFromSpecialCases pathSegments r of
           Inl e \<Rightarrow> Inl e
         | Inr fromSpecial \<Rightarrow>
            (let inferences =
                   [fromPath, fromSpecial, inferFromRouteMethod pathSegments r,
                    inferFromFileName (filePath r)];
                 bestInference = bestOf (hd inferences) (tl inferences);
                 allAlternatives =
                   concat (map (\<lambda>inference.
                                  (if collectionName inference \<noteq> collectionName bestInference
                                   then [collectionName inference] else [])
                                  @ alternativeNames inference) inferences)
             in Inr (bestInference\<lparr>alternativeNames := take 5 (setToArray allAlternatives)\<rparr>)))"

text \<open>The route of the specification's example, in any file.\<close>

definition productRoute :: "string \<Rightarrow> DetectedRoute" where
  "productRoute file =
     \<lparr>routeMethod = ''GET'', path = ''/api/v1/products/:id'', filePath = file, line = 12,
      middlewares = [], handler = ''getProduct'',
      controllerFilePath = None, controllerFunction = None\<rparr>"

section \<open>SampleDataFetcher.fetchFieldSamples (sampleDataFetcher.ts)\<close>

definition fetchFieldSamples :: "MongoConnector \<Rightarrow> string \<Rightarrow> string \<Rightarrow> nat \<Rightarrow> jsval list" where
  "fetchFieldSamples c collName field limit =
     (if \<not> isAvailable c then []
      else
        (case getCollection c collName of
           None \<Rightarrow> []
         | Some coll \<Rightarrow>
            (case findWithField coll field limit of
               Inl e \<Rightarrow> []
             | Inr docs \<Rightarrow>
                filter (\<lambda>v. \<not> isNullish v) (map (\<lambda>doc. getProperty doc field) docs))))"

section \<open>HybridPayloadGenerator (hybridPayloadGenerator.ts)\<close>

text \<open>
  \<open>PredictedField\<close> and \<open>PayloadPrediction\<close> come from the predictor. \<open>example\<close> is
  declared a string there and receives any sampled value in the merged field, so it is a
  value here. \<open>predictedFields\<close> is the field \<open>fields\<close> of \<open>PayloadPrediction\<close>, and
  \<open>mergedFields\<close> the field \<open>fields\<close> of \<open>HybridPayloadPrediction\<close>.
\<close>

record PredictedField =
  name :: string
  type :: string
  required :: bool
  example :: jsval
  description :: string

record PredictedHeader =
  headerName :: string
  headerValue :: string
  headerDescription :: string
  headerRequired :: bool

record PayloadPrediction =
  predictedFields :: "PredictedField list"
  headers :: "PredictedHeader list option"
  baseUrl :: "string option"

datatype Source = Ai | Mongodb | Hybrid

datatype Approach = AiOnly | MongoOnly | HybridApproach

record MongoFieldInfo =
  infoType :: string
  infoFrequency :: rat
  infoIsRequired :: bool
  infoPossibleValues :: "jsval list option"

record HybridFieldPrediction = PredictedField +
  realValues :: "jsval list option"
  hasRealData :: bool
  fieldConfidence :: rat
  source :: Source
  mongoFieldInfo :: "MongoFieldInfo option"

record SampleDocument =
  documentId :: jsval
  data :: jsval
  displayName :: string
  summary :: string

text \<open>\<open>CollectionSampleData\<close>; \<open>sampledCollection\<close> and \<open>sampleConfidence\<close> are its fields
  \<open>collectionName\<close> and \<open>confidence\<close>.\<close>

record CollectionSampleData =
  sampledCollection :: string
  sampleConfidence :: rat
  samples :: "SampleDocument list"
  totalDocuments :: nat
  sampleSuccess :: bool
  sampleErrorMessage :: "string option"

record RealDataOptions =
  primary :: "CollectionSampleData option"
  alternatives :: "CollectionSampleData list"
  availableCollections :: "string list"

text \<open>The part of \<open>DetailedSchemaField\<close> and of \<open>CollectionSchema\<close> that the generator
  reads.\<close>

record DetailedSchemaField =
  schemaFieldName :: string
  schemaFieldType :: string
  frequency :: rat
  examples :: "jsval list"
  isRequired :: bool
  possibleValues :: "jsval list option"

record CollectionSchema =
  detailedFields :: "DetailedSchemaField list"

record PayloadGenerationOptions =
  preferRealData :: bool
  includeAllFields :: bool
  useAIFallback :: bool
  limitFields :: "nat option"
  excludeFields :: "string list option"
  forceFields :: "string list option"

record HybridPayloadPrediction =
  mergedFields :: "HybridFieldPrediction list"
  predictedCollection :: "string option"
  collectionConfidence :: rat
  sampleDocuments :: "SampleDocument list"
  hasMongoData :: bool
  aiPrediction :: "PayloadPrediction option"
  mongoSchema :: "CollectionSchema option"
  recommendedApproach :: Approach

text \<open>What \<open>getMongoData\<close> returns when it does not return \<open>null\<close>.\<close>

record MongoData =
  mongoPrimary :: CollectionSampleData
  mongoSchemaOf :: "CollectionSchema option"

text \<open>
  The collaborators of the generator for one route. \<open>predict n\<close> is the outcome of the
  \<open>n\<close>-th call of \<open>payloadPredictor.predict(route)\<close>; \<open>realDataForRoute\<close> and
  \<open>collectionSchema\<close> are the outcomes of \<open>getRealDataForRoute(route)\<close> and of
  \<open>getCollectionSchema(name, ...)\<close>; \<open>jsonStringify\<close> is \<open>JSON.stringify\<close>, which
  returns \<open>undefined\<close> for some values and throws for others; \<open>valueToString\<close> is
  \<open>toString()\<close> on a value of object type.
\<close>

record Env =
  connector :: MongoConnector
  predict :: "nat \<Rightarrow> error + PayloadPrediction option"
  realDataForRoute :: "error + RealDataOptions"
  collectionSchema :: "string \<Rightarrow> error + CollectionSchema option"
  jsonStringify :: "jsval \<Rightarrow> error + string option"
  valueToString :: "jsval \<Rightarrow> string"

definition getDefaultOptions :: PayloadGenerationOptions where
  "getDefaultOptions =
     \<lparr>preferRealData = True, includeAllFields = False, useAIFallback = True,
      limitFields = Some 15, excludeFields = Some [''__v'', ''_id''], forceFields = Some []\<rparr>"

definition getAIPrediction :: "Env \<Rightarrow> PayloadGenerationOptions \<Rightarrow> nat \<Rightarrow> PayloadPrediction option" where
  "getAIPrediction env options n =
     (if \<not> useAIFallback options \<and> \<not> preferRealData options then None
      else (case predict env n of Inl e \<Rightarrow> None | Inr prediction \<Rightarrow> prediction))"

definition getMongoData :: "Env \<Rightarrow> MongoData option" where
  "getMongoData env =
     (case realDataForRoute env of
        Inl e \<Rightarrow> None
      | Inr realData \<Rightarrow>
         (case primary realData of
            None \<Rightarrow> None
          | Some p \<Rightarrow>
             (case collectionSchema env (sampledCollection p) of
                Inl e \<Rightarrow> None
              | Inr schema \<Rightarrow> Some \<lparr>mongoPrimary = p, mongoSchemaOf = schema\<rparr>)))"

fun walkPath :: "string list \<Rightarrow> jsval \<Rightarrow> jsval" where
  "walkPath [] current = current"
| "walkPath (part # parts) current =
     (if jsTruthy current \<and> isObjectType current \<and> hasProperty current part
      then walkPath parts (getProperty current part)
      else JNull)"

definition getNestedFieldValue :: "jsval \<Rightarrow> string \<Rightarrow> jsval" where
  "getNestedFieldValue obj fieldPath =
     (if \<not> jsTruthy obj \<or> \<not> isObjectType obj then JNull
      else walkPath (splitOn (CHR ''.'') fieldPath) obj)"

fun sanitizeValue :: "Env \<Rightarrow> jsval \<Rightarrow> jsval" where
  "sanitizeValue env (JDate isoText) = JStr isoText"
| "sanitizeValue env (JObjectId hex) = (if length hex = 24 then JStr hex else JObjectId hex)"
| "sanitizeValue env v =
     (if jsTruthy v \<and> isObjectType v \<and> length (valueToString env v) = 24
      then JStr (valueToString env v) else v)"

text \<open>The loop of \<open>getRealValuesForField\<close> over the sample documents, with the array
  \<open>values\<close> and the set \<open>seen\<close>.\<close>

fun collectValues ::
  "Env \<Rightarrow> string \<Rightarrow> jsval list \<Rightarrow> string option list \<Rightarrow> SampleDocument list
     \<Rightarrow> error + jsval list" where
  "collectValues env field values seen [] = Inr values"
| "collectValues env field values seen (sample # others) =
     (let v = getNestedFieldValue (data sample) field
      in if isNullish v then collectValues env field values seen others
         else
           (case jsonStringify env v of
              Inl e \<Rightarrow> Inl e
            | Inr stringValue \<Rightarrow>
                if stringValue \<in> set seen then collectValues env field values seen others
                else collectValues env field (values @ [sanitizeValue env v])
                       (stringValue # seen) others))"

definition getRealValuesForField ::
  "Env \<Rightarrow> string \<Rightarrow> SampleDocument list \<Rightarrow> string option \<Rightarrow> error + jsval list" where
  "getRealValuesForField env field docs collName =
     (case collectValues env field [] [] docs of
        Inl e \<Rightarrow> Inl e
      | Inr values \<Rightarrow>
          if values = [] \<and> truthy collName
          then Inr (map (sanitizeValue env)
                      (fetchFieldSamples (connector env) (the collName) field 5))
          else Inr values)"

definition calculateFieldConfidence ::
  "PredictedField option \<Rightarrow> DetailedSchemaField option \<Rightarrow> jsval list \<Rightarrow> rat" where
  "calculateFieldConfidence aiField mongoField values =
     (let c0 = dbl (1 / 2);
          c1 = (case mongoField of
                  None \<Rightarrow> c0
                | Some mf \<Rightarrow>
                   (let a = fadd c0 (dbl (3 / 10));
                        b = (if frequency mf > 80 then fadd a (dbl (1 / 10)) else a)
                    in if isRequired mf then fadd b (dbl (1 / 10)) else b));
          c2 = (case aiField of
                  None \<Rightarrow> c1
                | Some af \<Rightarrow>
                   (let a = fadd c1 (dbl (2 / 10))
                    in if required af then fadd a (dbl (1 / 10)) else a));
          c3 = (if values \<noteq> [] then fadd c2 (dbl (2 / 10)) else c2);
          c4 = (case (aiField, mongoField) of
                  (Some af, Some mf) \<Rightarrow>
                    if type af \<noteq> schemaFieldType mf then fsub c3 (dbl (1 / 10)) else c3
                | _ \<Rightarrow> c3)
      in min (max c4 (dbl (1 / 10))) (dbl 1))"

definition includesOpt :: "string list option \<Rightarrow> string \<Rightarrow> bool" where
  "includesOpt xs x = (case xs of None \<Rightarrow> False | Some ys \<Rightarrow> x \<in> set ys)"

definition shouldSkipField :: "string \<Rightarrow> string \<Rightarrow> PayloadGenerationOptions \<Rightarrow> bool" where
  "shouldSkipField field verb options =
     (if includesOpt (excludeFields options) field then True
      else if includesOpt (forceFields options) field then False
      else if startsWith field ''__'' \<or> (field = ''_id'' \<and> verb = ''POST'') then True
      else if field = ''__v'' \<or> field = ''version'' then True
      else if verb = ''POST'' \<and> (field = ''createdAt'' \<or> field = ''updatedAt'') then True
      else False)"

text \<open>\<open>a || b\<close> on strings.\<close>

definition orElse :: "string \<Rightarrow> string \<Rightarrow> string" where
  "orElse a b = (if a \<noteq> [] then a else b)"

text \<open>The first loop of \<open>mergeFieldPredictions\<close>, over the schema fields. The set
  \<open>processedFields\<close> is the list of names \<open>processed\<close>.\<close>

fun mergeSchemaFields ::
  "Env \<Rightarrow> PredictedField list \<Rightarrow> CollectionSampleData \<Rightarrow> string \<Rightarrow> PayloadGenerationOptions
     \<Rightarrow> HybridFieldPrediction list \<Rightarrow> string list \<Rightarrow> DetailedSchemaField list
     \<Rightarrow> error + HybridFieldPrediction list \<times> string list" where
  "mergeSchemaFields env aiFields prim verb options acc processed [] = Inr (acc, processed)"
| "mergeSchemaFields env aiFields prim verb options acc processed (mongoField # others) =
     (if shouldSkipField (schemaFieldName mongoField) verb options
      then mergeSchemaFields env aiFields prim verb options acc processed others
      else
        (let aiField = find (\<lambda>af. name af = schemaFieldName mongoField) aiFields
         in case getRealValuesForField env (schemaFieldName mongoField) (samples prim)
                   (Some (sampledCollection prim)) of
              Inl e \<Rightarrow> Inl e
            | Inr values \<Rightarrow>
               mergeSchemaFields env aiFields prim verb options
                 (acc @
                  [\<lparr>name = schemaFieldName mongoField,
                    type = (case aiField of
                              None \<Rightarrow> schemaFieldType mongoField
                            | Some af \<Rightarrow> orElse (type af) (schemaFieldType mongoField)),
                    required = isRequired mongoField,
                    example = (if values \<noteq> [] then hd values
                               else (case examples mongoField of
                                       [] \<Rightarrow> JUndefined | ex # exs \<Rightarrow> ex)),
                    description =
                      (case aiField of
                         None \<Rightarrow> ''Field from '' @ sampledCollection prim @ '' collection''
                       | Some af \<Rightarrow>
                           orElse (description af)
                             (''Field from '' @ sampledCollection prim @ '' collection'')),
                    realValues = Some values,
                    hasRealData = (values \<noteq> []),
                    fieldConfidence =
                      calculateFieldConfidence aiField (Some mongoField) values,
                    source = (case aiField of None \<Rightarrow> Mongodb | Some af \<Rightarrow> Hybrid),
                    mongoFieldInfo =
                      Some \<lparr>infoType = schemaFieldType mongoField,
                            infoFrequency = frequency mongoField,
                            infoIsRequired = isRequired mongoField,
                            infoPossibleValues = possibleValues mongoField\<rparr>\<rparr>])
                 (processed @ [schemaFieldName mongoField]) others))"

text \<open>The second loop, over the predicted fields that the first loop has not covered.\<close>

fun mergeAiFields ::
  "Env \<Rightarrow> MongoData option \<Rightarrow> string \<Rightarrow> PayloadGenerationOptions
     \<Rightarrow> HybridFieldPrediction list \<Rightarrow> string list \<Rightarrow> PredictedField list
     \<Rightarrow> error + HybridFieldPrediction list" where
  "mergeAiFields env mongoData verb options acc processed [] = Inr acc"
| "mergeAiFields env mongoData verb options acc processed (aiField # others) =
     (if name aiField \<notin> set processed \<and> \<not> shouldSkipField (name aiField) verb options then
        (case (case mongoData of
                 None \<Rightarrow> Inr []
               | Some md \<Rightarrow>
                   getRealValuesForField env (name aiField) (samples (mongoPrimary md)) None) of
           Inl e \<Rightarrow> Inl e
         | Inr values \<Rightarrow>
            mergeAiFields env mongoData verb options
              (acc @
               [\<lparr>name = name aiField, type = type aiField, required = required aiField,
                 example = example aiField, description = description aiField,
                 realValues = Some values,
                 hasRealData = (values \<noteq> []),
                 fieldConfidence = (if values \<noteq> [] then dbl (8 / 10) else dbl (6 / 10)),
                 source = (if values \<noteq> [] then Hybrid else Ai),
                 mongoFieldInfo = None\<rparr>])
              (processed @ [name aiField]) others)
      else mergeAiFields env mongoData verb options acc processed others)"

definition hexDigits :: string where
  "hexDigits = ''0123456789abcdefABCDEF''"

fun isHex24 :: "jsval \<Rightarrow> bool" where
  "isHex24 (JStr s) = (length s = 24 \<and> (\<forall>c \<in> set s. c \<in> set hexDigits))"
| "isHex24 v = False"

definition looksLikeObjectId :: "HybridFieldPrediction \<Rightarrow> bool" where
  "looksLikeObjectId field =
     (includesStr (type field) ''ObjectId'' \<or>
      includesStr (toLowerCase (name field)) ''id'' \<or>
      (case realValues field of None \<Rightarrow> False | Some vs \<Rightarrow> \<exists>v \<in> set vs. isHex24 v))"

definition applyResolution ::
  "(string \<rightharpoonup> ObjectIdResolution) \<Rightarrow> HybridFieldPrediction \<Rightarrow> HybridFieldPrediction" where
  "applyResolution resolutions field =
     (case resolutions (name field) of
        None \<Rightarrow> field
      | Some resolution \<Rightarrow>
          if success resolution \<and> suggestedIds resolution \<noteq> [] then
            field\<lparr>realValues := Some (map (\<lambda>r. JStr (objectId r))
                                        (take 3 (suggestedIds resolution))),
                  fieldConfidence := max (fieldConfidence field) (dbl (8 / 10)),
                  hasRealData := True,
                  source := (if source field = Ai then Hybrid else source field)\<rparr>
          else field)"

text \<open>\<open>resolveObjectIdFields\<close> mutates the selected fields in place; here every field of
  the array is mapped, the selected ones through \<open>applyResolution\<close>.\<close>

definition resolveObjectIdFields ::
  "Env \<Rightarrow> HybridFieldPrediction list \<Rightarrow> string option \<Rightarrow> HybridFieldPrediction list" where
  "resolveObjectIdFields env hfields collName =
     (let objectIdFields = filter looksLikeObjectId hfields
      in if objectIdFields = [] then hfields
         else
           (let resolutions =
                  resolveMultipleObjectIds (valueToString env) (connector env)
                    (map name objectIdFields) collName
            in map (\<lambda>f. if looksLikeObjectId f then applyResolution resolutions f else f)
                 hfields))"

text \<open>The comparator of the final sort.\<close>

definition compareFields :: "HybridFieldPrediction \<Rightarrow> HybridFieldPrediction \<Rightarrow> rat" where
  "compareFields a b =
     (if required a \<and> \<not> required b then - 1
      else if \<not> required a \<and> required b then 1
      else fsub (fieldConfidence b) (fieldConfidence a))"

definition mergeFieldPredictions ::
  "Env \<Rightarrow> PredictedField list \<Rightarrow> MongoData option \<Rightarrow> DetectedRoute \<Rightarrow> PayloadGenerationOptions
     \<Rightarrow> error + HybridFieldPrediction list" where
  "mergeFieldPredictions env aiFields mongoData r options =
     (case (case mongoData of
              None \<Rightarrow> Inr ([], [])
            | Some md \<Rightarrow>
               (case mongoSchemaOf md of
                  None \<Rightarrow> Inr ([], [])
                | Some schema \<Rightarrow>
                    mergeSchemaFields env aiFields (mongoPrimary md) (routeMethod r) options
                      [] [] (detailedFields schema))) of
        Inl e \<Rightarrow> Inl e
      | Inr (fromSchema, processed) \<Rightarrow>
         (case mergeAiFields env mongoData (routeMethod r) options fromSchema processed
                 aiFields of
            Inl e \<Rightarrow> Inl e
          | Inr merged \<Rightarrow>
             (let resolved =
                    resolveObjectIdFields env merged
                      (map_option (\<lambda>md. sampledCollection (mongoPrimary md)) mongoData);
                  sorted = jsSort (\<lambda>a b. compareFields a b > 0) resolved
              in case limitFields options of
                   None \<Rightarrow> Inr sorted
                 | Some n \<Rightarrow> if n > 0 then Inr (take n sorted) else Inr sorted)))"

definition determineRecommendedApproach ::
  "PayloadPrediction option \<Rightarrow> MongoData option \<Rightarrow> PayloadGenerationOptions \<Rightarrow> Approach" where
  "determineRecommendedApproach prediction mongoData options =
     (let hasAI = (case prediction of None \<Rightarrow> False | Some p \<Rightarrow> predictedFields p \<noteq> []);
          hasMongo = (case mongoData of
                        None \<Rightarrow> False
                      | Some md \<Rightarrow> samples (mongoPrimary md) \<noteq> [])
      in if \<not> hasAI \<and> \<not> hasMongo then AiOnly
         else if \<not> hasAI \<and> hasMongo then MongoOnly
         else if hasAI \<and> \<not> hasMongo then AiOnly
         else if hasAI \<and> hasMongo then
           (if preferRealData options then
              (if sampleConfidence (mongoPrimary (the mongoData)) > dbl (6 / 10)
               then HybridApproach else AiOnly)
            else HybridApproach)
         else HybridApproach)"

text \<open>\<open>mongoData?.primary\<close>: \<open>undefined\<close> when \<open>mongoData\<close> is \<open>null\<close>, otherwise the
  sample data that \<open>getMongoData\<close> stored.\<close>

datatype 'a nullable = Undefined | Null | Defined 'a

definition primaryOf :: "MongoData option \<Rightarrow> CollectionSampleData nullable" where
  "primaryOf mongoData =
     (case mongoData of None \<Rightarrow> Undefined | Some md \<Rightarrow> Defined (mongoPrimary md))"

definition aiOnlyField :: "PredictedField \<Rightarrow> HybridFieldPrediction" where
  "aiOnlyField field =
     \<lparr>name = name field, type = type field, required = required field,
      example = example field, description = description field,
      realValues = None, hasRealData = False, fieldConfidence = dbl (1 / 2),
      source = Ai, mongoFieldInfo = None\<rparr>"

text \<open>
  \<open>generateHybridPrediction\<close>. The two analyses started together are independent; the
  prediction is call 0 of the predictor. When the merge throws, the \<open>catch\<close> block asks
  the predictor again (call 1) and answers from that alone.
\<close>

definition generateHybridPrediction ::
  "Env \<Rightarrow> DetectedRoute \<Rightarrow> PayloadGenerationOptions \<Rightarrow> HybridPayloadPrediction" where
  "generateHybridPrediction env r options =
     (let hasMongoConnection = isAvailable (connector env);
          prediction = getAIPrediction env options 0;
          mongoData = (if hasMongoConnection then getMongoData env else None);
          recommended = determineRecommendedApproach prediction mongoData options
      in case mergeFieldPredictions env
                (case prediction of None \<Rightarrow> [] | Some p \<Rightarrow> predictedFields p)
                mongoData r options of
           Inr merged \<Rightarrow>
             \<lparr>mergedFields = merged,
              predictedCollection =
                map_option (\<lambda>md. sampledCollection (mongoPrimary md)) mongoData,
              collectionConfidence =
                (case mongoData of None \<Rightarrow> 0 | Some md \<Rightarrow> sampleConfidence (mongoPrimary md)),
              sampleDocuments =
                (case mongoData of None \<Rightarrow> [] | Some md \<Rightarrow> samples (mongoPrimary md)),
              hasMongoData = (hasMongoConnection \<and> primaryOf mongoData \<noteq> Null),
              aiPrediction = prediction,
              mongoSchema = (case mongoData of None \<Rightarrow> None | Some md \<Rightarrow> mongoSchemaOf md),
              recommendedApproach = recommended\<rparr>
         | Inl e \<Rightarrow>
             (let again = getAIPrediction env options 1
              in \<lparr>mergedFields =
                    (case again of None \<Rightarrow> [] | Some p \<Rightarrow> map aiOnlyField (predictedFields p)),
                  predictedCollection = None,
                  collectionConfidence = 0,
                  sampleDocuments = [],
                  hasMongoData = False,
                  aiPrediction = again,
                  mongoSchema = None,
                  recommendedApproach = AiOnly\<rparr>))"

subsection \<open>Example environments\<close>

text \<open>
  A collection \<open>profiles\<close> with one document, whose \<open>nickname\<close> is \<open>null\<close>, and what
  the collaborators answer for the route \<open>PUT /profiles/:id\<close>: the sample data of the
  collection, found under the alternative name \<open>profiles\<close> with the confidence of an
  alternative, and the schema of its three fields. The predictor finds no controller and
  returns \<open>null\<close>.
\<close>

definition profileDoc :: jsval where
  "profileDoc =
     JObj [(''_id'', JObjectId ''507f1f77bcf86cd799439011''),
           (''email'', JStr ''ada@example.org''), (''nickname'', JNull)]"

definition profileSamples :: CollectionSampleData where
  "profileSamples =
     \<lparr>sampledCollection = ''profiles'',
      sampleConfidence =
        max (dbl (1 / 10))
          (fsub (fadd (fadd (dbl (1 / 2)) (dbl (2 / 10))) (dbl (1 / 10))) (dbl (3 / 10))),
      samples = [\<lparr>documentId = JObjectId ''507f1f77bcf86cd799439011'', data = profileDoc,
                  displayName = ''ada@example.org'', summary = ''email: ada@example.org''\<rparr>],
      totalDocuments = 1, sampleSuccess = True, sampleErrorMessage = None\<rparr>"

definition profileSchema :: CollectionSchema where
  "profileSchema =
     \<lparr>detailedFields =
        [\<lparr>schemaFieldName = ''_id'', schemaFieldType = ''ObjectId'', frequency = 100,
          examples = [JObjectId ''507f1f77bcf86cd799439011''], isRequired = True,
          possibleValues = None\<rparr>,
         \<lparr>schemaFieldName = ''email'', schemaFieldType = ''string'', frequency = 100,
          examples = [JStr ''ada@example.org''], isRequired = True, possibleValues = None\<rparr>,
         \<lparr>schemaFieldName = ''nickname'', schemaFieldType = ''null'', frequency = 0,
          examples = [], isRequired = False, possibleValues = None\<rparr>]\<rparr>"

text \<open>A stand-in for \<open>JSON.stringify\<close> that tells strings apart.\<close>

fun textOf :: "jsval \<Rightarrow> error + string option" where
  "textOf JUndefined = Inr None"
| "textOf (JStr s) = Inr (Some s)"
| "textOf v = Inr (Some ''[value]'')"

definition profilesEnv :: Env where
  "profilesEnv =
     \<lparr>connector = connected (\<lambda>k. k) [''profiles'']
                    (\<lambda>n. if n = ''profiles'' then [profileDoc] else []),
      predict = (\<lambda>n. Inr None),
      realDataForRoute =
        Inr \<lparr>primary = Some profileSamples, alternatives = [],
             availableCollections = [''profiles'']\<rparr>,
      collectionSchema = (\<lambda>n. Inr (Some profileSchema)),
      jsonStringify = textOf,
      valueToString = (\<lambda>v. ''[object Object]'')\<rparr>"

definition profilesRoute :: DetectedRoute where
  "profilesRoute =
     \<lparr>routeMethod = ''PUT'', path = ''/profiles/:id'', filePath = ''routes/profiles.js'',
      line = 4, middlewares = [], handler = ''updateProfile'',
      controllerFilePath = None, controllerFunction = None\<rparr>"

text \<open>The predictor's answer for that route: one required field.\<close>

definition emailPrediction :: PayloadPrediction where
  "emailPrediction =
     \<lparr>predictedFields =
        [\<lparr>name = ''email'', type = ''string'', required = True,
          example = JStr ''user@example.com'', description = ''Contact address''\<rparr>],
      headers = None, baseUrl = None\<rparr>"

text \<open>No database: the connection is unavailable and the predictor answers.\<close>

definition offlineEnv :: Env where
  "offlineEnv =
     \<lparr>connector = disconnected,
      predict = (\<lambda>n. Inr (Some emailPrediction)),
      realDataForRoute = Inl DriverError,
      collectionSchema = (\<lambda>n. Inl DriverError),
      jsonStringify = textOf,
      valueToString = (\<lambda>v. ''[object Object]'')\<rparr>"


text \<open>The name, the source and the \<open>hasRealData\<close> flag of a merged field.\<close>

definition provenance :: "HybridFieldPrediction \<Rightarrow> string \<times> Source \<times> bool" where
  "provenance f = (name f, source f, hasRealData f)"

text \<open>\<open>hasRealData\<close> says whether \<open>realValues\<close> holds a value.\<close>

definition realDataFlagExact :: "HybridFieldPrediction \<Rightarrow> bool" where
  "realDataFlagExact f = (hasRealData f \<longleftrightarrow> (\<exists>vs. realValues f = Some vs \<and> vs \<noteq> []))"

section \<open>Properties of the route detector\<close>

text \<open>\<open>preorder\<close> visits a node and then the subtrees of its children, in order.\<close>

lemma preorder_children: "preorder n = n # concat (map preorder (children n))"
  by (cases n) (simp_all split: option.splits)

lemma toUpperCase_httpMethods:
  "m \<in> set httpMethods \<Longrightarrow> toUpperCase m \<in> set canonicalVerbs"
  by (auto simp: httpMethods_def canonicalVerbs_def toUpperCase_def toUpperChar_def)

lemma startsWith_slash: "startsWith s ''/'' = (\<exists>t. s = CHR ''/'' # t)"
  by (cases s) (auto simp: startsWith_def)

lemma endsWith_snoc: "endsWith (ys @ [y]) ''/'' = (y = CHR ''/'')"
  by (simp add: endsWith_def)

lemma sliceDropLast_snoc: "sliceDropLast (ys @ [y]) = ys"
  by (simp add: sliceDropLast_def)

lemma combinePaths_startsWith:
  assumes "prefix \<noteq> []"
  shows "startsWith (combinePaths prefix p) ''/'' = startsWith prefix ''/''"
proof -
  obtain ys y where pre: "prefix = ys @ [y]"
    using assms by (meson rev_exhaust)
  obtain q where clean: "(if startsWith p ''/'' then p else ''/'' @ p) = CHR ''/'' # q"
    by (cases "startsWith p ''/''") (auto simp: startsWith_slash)
  have "combinePaths prefix p = (if y = CHR ''/'' then ys else ys @ [y]) @ CHR ''/'' # q"
    unfolding combinePaths_def Let_def clean pre endsWith_snoc sliceDropLast_snoc by simp
  then show ?thesis
    unfolding pre by (cases ys) (auto simp: startsWith_slash)
qed

lemma prefixFor_nonempty: "prefixFor d obj = Some p \<Longrightarrow> p \<noteq> []"
  by (auto simp: prefixFor_def split: option.splits if_splits)

lemma importSpecifier_frame:
  "routes (importSpecifier p d n) = routes d \<and>
   workspaceRoot (importSpecifier p d n) = workspaceRoot d"
  by (cases n) (simp_all split: option.splits)

lemma foldl_importSpecifier_frame:
  "routes (foldl (importSpecifier p) d ns) = routes d \<and>
   workspaceRoot (foldl (importSpecifier p) d ns) = workspaceRoot d"
  by (induction ns arbitrary: d) (simp_all add: importSpecifier_frame)

lemma detectImports_frame:
  "routes (detectImports ws d n f) = routes d \<and>
   workspaceRoot (detectImports ws d n f) = workspaceRoot d"
  by (cases n) (simp_all add: foldl_importSpecifier_frame split: option.splits)

lemma detectRequires_frame:
  "routes (detectRequires ws d n f) = routes d \<and>
   workspaceRoot (detectRequires ws d n f) = workspaceRoot d"
  by (cases n) (simp_all split: option.splits prod.splits)

lemma detectRouterPrefix_frame:
  "routes (detectRouterPrefix d n) = routes d \<and>
   workspaceRoot (detectRouterPrefix d n) = workspaceRoot d"
  by (simp add: detectRouterPrefix_def split: option.splits prod.splits)

lemma importPass_frame:
  "routes (foldl (\<lambda>s n. detectRequires ws (detectImports ws s n f) n f) d ns) = routes d \<and>
   workspaceRoot (foldl (\<lambda>s n. detectRequires ws (detectImports ws s n f) n f) d ns) =
     workspaceRoot d"
  by (induction ns arbitrary: d) (simp_all add: detectRequires_frame detectImports_frame)

lemma prefixPass_frame:
  "routes (foldl detectRouterPrefix d ns) = routes d \<and>
   workspaceRoot (foldl detectRouterPrefix d ns) = workspaceRoot d"
  by (induction ns arbitrary: d) (simp_all add: detectRouterPrefix_frame)

lemma asCallExpression_Some:
  "asCallExpression n = Some (l, c, a) \<longleftrightarrow> n = CallExpression l c a"
  by (cases n) auto

lemma asMemberExpression_Some:
  "asMemberExpression n = Some (obj, prop) \<longleftrightarrow> n = MemberExpression obj prop"
  by (cases n) auto

lemma asIdentifier_Some: "asIdentifier n = Some x \<longleftrightarrow> n = Identifier x"
  by (cases n) auto

lemma asStringLiteral_Some: "asStringLiteral n = Some x \<longleftrightarrow> n = StringLiteral x"
  by (cases n) auto

text \<open>The route that a recognised call appends.\<close>

lemma detectRoute_recognised:
  assumes "toLowerCase prop \<in> set httpMethods"
  shows "detectRoute d (CallExpression l (MemberExpression obj (Identifier prop))
                          (StringLiteral routePath # rest)) f =
         Inr (d\<lparr>routes := routes d @
                [\<lparr>routeMethod = toUpperCase (toLowerCase prop), path = fullPathOf d obj routePath,
                  filePath = f, line = locStart l,
                  middlewares = hMiddlewares (handlerArgs d initialHandler rest),
                  handler = hHandler (handlerArgs d initialHandler rest),
                  controllerFilePath = hControllerFilePath (handlerArgs d initialHandler rest),
                  controllerFunction = hControllerFunction (handlerArgs d initialHandler rest)\<rparr>]\<rparr>)"
  using assms by (simp add: detectRoute_def Let_def)

text \<open>Every other successful visit leaves the detector alone.\<close>

lemma detectRoute_cases:
  assumes "detectRoute d n f = Inr d'"
  shows "d' = d \<or>
         (\<exists>l obj prop routePath rest.
            n = CallExpression l (MemberExpression obj (Identifier prop))
                  (StringLiteral routePath # rest) \<and>
            toLowerCase prop \<in> set httpMethods)"
  using assms
  by (auto simp: detectRoute_def Let_def asCallExpression_Some asMemberExpression_Some
      asIdentifier_Some asStringLiteral_Some split: option.splits if_splits list.splits)


lemma detectRoute_canonical:
  assumes "detectRoute d n f = Inr d'" and "canonicalRoutes d"
  shows "canonicalRoutes d'"
  using detectRoute_cases[OF assms(1)] assms
  by (auto simp: canonicalRoutes_def toUpperCase_httpMethods detectRoute_recognised)


lemma routePass_canonical: "canonicalRoutes d \<Longrightarrow> canonicalRoutes (routePass d ns f)"
  by (induction ns arbitrary: d) (auto split: sum.splits dest: detectRoute_canonical)


lemma parseFileForRoutes_canonical:
  assumes "canonicalRoutes d"
  shows "canonicalRoutes (parseFileForRoutes ws d f)"
proof (cases "readAndParse ws f")
  case (Inl e)
  then show ?thesis using assms by (simp add: parseFileForRoutes_def)
next
  case (Inr ast)
  define d2 where "d2 = foldl detectRouterPrefix
       (foldl (\<lambda>s n. detectRequires ws (detectImports ws s n f) n f)
          (d\<lparr>controllerImports := Map.empty, functionImports := Map.empty\<rparr>) (traversal ast))
       (traversal ast)"
  have "routes d2 = routes d"
    by (simp add: d2_def prefixPass_frame importPass_frame)
  then have "canonicalRoutes d2"
    using assms by (simp add: canonicalRoutes_def)
  then have "canonicalRoutes (routePass d2 (traversal ast) f)"
    by (rule routePass_canonical)
  then show ?thesis
    by (simp add: parseFileForRoutes_def Inr Let_def d2_def)
qed

lemma scan_canonical:
  "canonicalRoutes d \<Longrightarrow> canonicalRoutes (foldl (parseFileForRoutes ws) d fs)"
  by (induction fs arbitrary: d) (simp_all add: parseFileForRoutes_canonical)

lemma clearDetector_canonical: "canonicalRoutes (clearDetector d)"
  by (simp add: canonicalRoutes_def clearDetector_def)

lemma detectRoutes_canonical: "canonicalRoutes (snd (detectRoutes ws d))"
  by (simp add: detectRoutes_def Let_def scan_canonical clearDetector_canonical)

lemma detectRoutesInFile_found:
  "fst (detectRoutesInFile ws d f) = routes (parseFileForRoutes ws (clearDetector d) f)"
  by (simp add: detectRoutesInFile_def Let_def)


lemmas detector_eval =
  detectRoutesInFile_def detectRoutes_def findRouteFiles_def patterns_def setToArray_def
  parseFileForRoutes_def clearDetector_def traversal_def detectRoute_def
  detectRouterPrefix_def toLowerCase_def toLowerChar_def toUpperCase_def toUpperChar_def
  httpMethods_def fullPathOf_def prefixFor_def initialHandler_def locStart_def Let_def
  combinePaths_def startsWith_def endsWith_def sliceDropLast_def canonicalVerbs_def

text \<open>
  C1 (as stated, refuted). The claim says that the path of every emitted route begins
  with exactly one \<open>/\<close>. The file \<open>app.js\<close>, whose only statement is
  \<open>app.get('users', listUsers)\<close>, yields one route whose path is \<open>users\<close>: without a
  registered prefix the string literal is emitted as written.
\<close>

theorem unprefixed_path_counterexample:
  "map path (fst (detectRoutesInFile appWorkspace emptyDetector ''app.js'')) = [''users'']
   \<and> \<not> startsWith ''users'' ''/''"
  by (simp add: detector_eval appWorkspace_def appJs_def emptyDetector_def)

text \<open>
  C1 (amended). Every route returned by \<open>detectRoutes\<close> or \<open>detectRoutesInFile\<close> has one
  of the seven upper-case verbs as its method. A recognised call
  \<open>obj.verb('literal', ...)\<close> appends exactly one route; its method is canonical and
  its path is the literal itself when no non-empty prefix is registered for the
  receiver, and otherwise the prefix without one trailing slash followed by the literal
  with a slash put in front unless it has one. Hence the path begins with \<open>/\<close>
  exactly when the literal does (no prefix) or when the prefix does (prefix applied).
\<close>

theorem detected_route_method_and_path:
  "(\<forall>r \<in> set (fst (detectRoutes ws d)). routeMethod r \<in> set canonicalVerbs) \<and>
   (\<forall>r \<in> set (fst (detectRoutesInFile ws d file)). routeMethod r \<in> set canonicalVerbs) \<and>
   (toLowerCase prop \<in> set httpMethods \<longrightarrow>
      (\<exists>r. detectRoute d' (CallExpression l (MemberExpression obj (Identifier prop))
                             (StringLiteral routePath # rest)) file
              = Inr (d'\<lparr>routes := routes d' @ [r]\<rparr>) \<and>
           routeMethod r \<in> set canonicalVerbs \<and>
           path r = (case prefixFor d' obj of
                       None \<Rightarrow> routePath
                     | Some prefix \<Rightarrow> combinePaths prefix routePath) \<and>
           startsWith (path r) ''/'' =
             startsWith (case prefixFor d' obj of None \<Rightarrow> routePath | Some prefix \<Rightarrow> prefix)
               ''/''))"
proof (intro conjI impI)
  show "\<forall>r \<in> set (fst (detectRoutes ws d)). routeMethod r \<in> set canonicalVerbs"
    using detectRoutes_canonical[of ws d]
    by (simp add: canonicalRoutes_def detectRoutes_def Let_def)
next
  have "canonicalRoutes (parseFileForRoutes ws (clearDetector d) file)"
    by (rule parseFileForRoutes_canonical[OF clearDetector_canonical])
  then show "\<forall>r \<in> set (fst (detectRoutesInFile ws d file)). routeMethod r \<in> set canonicalVerbs"
    by (simp add: detectRoutesInFile_found canonicalRoutes_def)
next
  assume verb: "toLowerCase prop \<in> set httpMethods"
  show "\<exists>r. detectRoute d' (CallExpression l (MemberExpression obj (Identifier prop))
                             (StringLiteral routePath # rest)) file
              = Inr (d'\<lparr>routes := routes d' @ [r]\<rparr>) \<and>
           routeMethod r \<in> set canonicalVerbs \<and>
           path r = (case prefixFor d' obj of
                       None \<Rightarrow> routePath
                     | Some prefix \<Rightarrow> combinePaths prefix routePath) \<and>
           startsWith (path r) ''/'' =
             startsWith (case prefixFor d' obj of None \<Rightarrow> routePath | Some prefix \<Rightarrow> prefix)
               ''/''"
    using verb
    by (auto simp: detectRoute_recognised toUpperCase_httpMethods fullPathOf_def
        combinePaths_startsWith prefixFor_nonempty split: option.splits)
qed

theorem detected_route_method_and_path_witness:
  "toLowerCase ''get'' \<in> set httpMethods \<and>
   map routeMethod (fst (detectRoutes serverWorkspace emptyDetector)) = [''GET''] \<and>
   map path (fst (detectRoutes serverWorkspace emptyDetector)) = [''/api/users/:id''] \<and>
   map routeMethod (fst (detectRoutesInFile serverWorkspace emptyDetector ''server.js'')) = [''GET''] \<and>
   set [''GET''] \<subseteq> set canonicalVerbs \<and>
   prefixFor busyDetector (Identifier ''router'') = Some ''/v1'' \<and>
   startsWith (combinePaths ''/v1'' ''users'') ''/''"
  using detected_route_method_and_path
     [of serverWorkspace emptyDetector "''server.js''" "''get''" busyDetector
         None "Identifier ''router''" "''users''" "[]"]
  by (simp add: detector_eval serverWorkspace_def serverJs_def emptyDetector_def
      busyDetector_def)



section \<open>Properties of the controller search\<close>

lemma visitController_fold_none:
  "List.map_filter (controllerMatch t) ns = [] \<Longrightarrow> foldl (visitController t) s ns = s"
  by (induction ns arbitrary: s)
     (auto simp: List.map_filter_simps visitController_def split: option.splits)

lemma visitController_fold_last:
  assumes "List.map_filter (controllerMatch t) ns \<noteq> []"
  shows "foldl (visitController t) s ns =
         \<lparr>foundFunction = Some (fst (last (List.map_filter (controllerMatch t) ns))),
          foundName = t,
          foundStart = locStart (snd (last (List.map_filter (controllerMatch t) ns))),
          foundEnd = locEnd (snd (last (List.map_filter (controllerMatch t) ns)))\<rparr>"
  using assms
proof (induction ns arbitrary: s)
  case Nil
  then show ?case by (simp add: List.map_filter_simps)
next
  case (Cons n ns)
  show ?case
  proof (cases "List.map_filter (controllerMatch t) ns = []")
    case True
    with Cons.prems obtain fn l where m: "controllerMatch t n = Some (fn, l)"
      by (auto simp: List.map_filter_simps split: option.splits)
    have step: "foldl (visitController t) s (n # ns) = visitController t s n"
      using True by (simp add: visitController_fold_none)
    show ?thesis
      unfolding step by (simp add: m True List.map_filter_simps visitController_def)
  next
    case False
    then show ?thesis
      using Cons.IH[OF False]
      by (auto simp: List.map_filter_simps split: option.splits)
  qed
qed

lemmas controller_eval =
  findControllerFunctionInAST_def visitController_def traversal_def locStart_def locEnd_def
  controllerMatches_def List.map_filter_simps Let_def

text \<open>
  C2 (as stated, refuted). The claim says that the first matching definition in
  traversal order gives the recorded line range. In a file that declares
  \<open>function createUser\<close> on lines 1 to 3 and assigns \<open>exports.createUser\<close> an arrow
  function on lines 5 to 7, the first match is the declaration, but the context records
  lines 5 to 7: the traversal is never stopped and each later match overwrites the
  variables.
\<close>

theorem first_match_counterexample:
  "map matchRange (controllerMatches ''createUser'' twoDefinitions) = [(1, 3), (5, 7)] \<and>
   map_option recordedRange
     (findControllerFunctionInAST twoDefinitions ''createUser'' [] someRoute) = Some (5, 7)"
  by (simp add: controller_eval twoDefinitions_def matchRange_def recordedRange_def)

text \<open>
  C2 (amended). The search returns no context when no node of the file matches the
  name under the four patterns; otherwise the context records the line range of the
  last match in traversal order.
\<close>

theorem last_match_wins:
  "(controllerMatches target ast = [] \<longrightarrow>
      findControllerFunctionInAST ast target content r = None) \<and>
   (controllerMatches target ast \<noteq> [] \<longrightarrow>
      (\<exists>c. findControllerFunctionInAST ast target content r = Some c \<and>
           functionName c = target \<and>
           startLine c = locStart (snd (last (controllerMatches target ast))) \<and>
           endLine c = locEnd (snd (last (controllerMatches target ast)))))"
proof (intro conjI impI)
  assume "controllerMatches target ast = []"
  then show "findControllerFunctionInAST ast target content r = None"
    by (simp add: findControllerFunctionInAST_def controllerMatches_def
        visitController_fold_none)
next
  assume "controllerMatches target ast \<noteq> []"
  then have ne: "List.map_filter (controllerMatch target) (traversal ast) \<noteq> []"
    by (simp add: controllerMatches_def)
  show "\<exists>c. findControllerFunctionInAST ast target content r = Some c \<and>
           functionName c = target \<and>
           startLine c = locStart (snd (last (controllerMatches target ast))) \<and>
           endLine c = locEnd (snd (last (controllerMatches target ast)))"
    by (simp add: findControllerFunctionInAST_def visitController_fold_last[OF ne]
        controllerMatches_def Let_def)
qed

theorem last_match_wins_witness:
  "controllerMatches ''createUser'' twoDefinitions \<noteq> [] \<and>
   controllerMatches ''deleteUser'' twoDefinitions = [] \<and>
   findControllerFunctionInAST twoDefinitions ''deleteUser'' [] someRoute = None \<and>
   locStart (snd (last (controllerMatches ''createUser'' twoDefinitions))) = 5 \<and>
   locEnd (snd (last (controllerMatches ''createUser'' twoDefinitions))) = 7"
  using last_match_wins[of "''createUser''" twoDefinitions "[]" someRoute]
    last_match_wins[of "''deleteUser''" twoDefinitions "[]" someRoute]
  by (simp add: controller_eval twoDefinitions_def)

section \<open>Properties of the sampling policy\<close>








section \<open>Properties of the ObjectId resolver\<close>

lemma collectSuggestions_success:
  "success (collectSuggestions idText c field ctx limit cols)"
  by (simp add: collectSuggestions_def Let_def)

text \<open>
  C10. \<open>resolveObjectIdField\<close> answers \<open>success: false\<close> only when the connection is
  unavailable or the \<open>try\<close> block throws. When the connection is available, nothing
  throws, and neither the mapping table nor the suffix inference names an existing
  collection, the answer is \<open>success: true\<close> with no suggested id, an error message, and
  all available collections as \<open>possibleCollections\<close>.
\<close>

theorem resolve_success_without_suggestion:
  "(\<not> success (resolveObjectIdField idText c field ctx limit) \<longrightarrow>
      \<not> isAvailable c \<or> (\<exists>e. getPossibleCollections field = Inl e)) \<and>
   (isAvailable c \<and> getPossibleCollections field = Inr possible \<and>
    filter (\<lambda>col. col \<in> set (listCollections c)) possible = [] \<and>
    filter (\<lambda>col. col \<in> set (listCollections c)) (inferCollectionFromFieldName field) = []
    \<longrightarrow>
      success (resolveObjectIdField idText c field ctx limit) \<and>
      suggestedIds (resolveObjectIdField idText c field ctx limit) = [] \<and>
      errorMessage (resolveObjectIdField idText c field ctx limit) \<noteq> None \<and>
      possibleCollections (resolveObjectIdField idText c field ctx limit) = listCollections c)"
proof (intro conjI impI)
  assume fail: "\<not> success (resolveObjectIdField idText c field ctx limit)"
  show "\<not> isAvailable c \<or> (\<exists>e. getPossibleCollections field = Inl e)"
  proof (rule ccontr)
    assume "\<not> (\<not> isAvailable c \<or> (\<exists>e. getPossibleCollections field = Inl e))"
    then obtain possible where "isAvailable c" "getPossibleCollections field = Inr possible"
      by (cases "getPossibleCollections field") auto
    then have "success (resolveObjectIdField idText c field ctx limit)"
      by (simp add: resolveObjectIdField_def Let_def collectSuggestions_success)
    with fail show False by simp
  qed
next
  assume h: "isAvailable c \<and> getPossibleCollections field = Inr possible \<and>
    filter (\<lambda>col. col \<in> set (listCollections c)) possible = [] \<and>
    filter (\<lambda>col. col \<in> set (listCollections c)) (inferCollectionFromFieldName field) = []"
  then have res: "resolveObjectIdField idText c field ctx limit =
      \<lparr>fieldName = field, suggestedIds = [], possibleCollections = listCollections c,
       success = True,
       errorMessage = Some (Text (''No matching collections found for field ''
                                   @ [CHR 0x27] @ field @ [CHR 0x27]))\<rparr>"
    by (simp add: resolveObjectIdField_def Let_def)
  show "success (resolveObjectIdField idText c field ctx limit)"
    by (simp add: res)
  show "suggestedIds (resolveObjectIdField idText c field ctx limit) = []"
    by (simp add: res)
  show "errorMessage (resolveObjectIdField idText c field ctx limit) \<noteq> None"
    by (simp add: res)
  show "possibleCollections (resolveObjectIdField idText c field ctx limit) = listCollections c"
    by (simp add: res)
qed

theorem resolve_success_without_suggestion_witness:
  "isAvailable ordersOnly \<and>
   getPossibleCollections ''userId'' = Inr [''users'', ''user'', ''accounts'', ''profiles''] \<and>
   listCollections ordersOnly = [''orders'', ''invoices''] \<and>
   inferCollectionFromFieldName ''userId'' = [''user'', ''users''] \<and>
   success (resolveObjectIdField plainIdText ordersOnly ''userId'' None 5) \<and>
   suggestedIds (resolveObjectIdField plainIdText ordersOnly ''userId'' None 5) = [] \<and>
   possibleCollections (resolveObjectIdField plainIdText ordersOnly ''userId'' None 5)
     = [''orders'', ''invoices''] \<and>
   \<not> isAvailable disconnected \<and>
   \<not> success (resolveObjectIdField plainIdText disconnected ''userId'' None 5) \<and>
   getPossibleCollections ''constructor'' = Inl TypeError \<and>
   \<not> success (resolveObjectIdField plainIdText ordersOnly ''constructor'' None 5)"
proof -
  have avail: "isAvailable ordersOnly"
    by code_simp
  have possible: "getPossibleCollections ''userId'' =
      Inr [''users'', ''user'', ''accounts'', ''profiles'']"
    by code_simp
  have listed: "listCollections ordersOnly = [''orders'', ''invoices'']"
    by code_simp
  have inferred: "inferCollectionFromFieldName ''userId'' = [''user'', ''users'']"
    by code_simp
  have off: "\<not> isAvailable disconnected"
    by code_simp
  have failOff: "\<not> success (resolveObjectIdField plainIdText disconnected ''userId'' None 5)"
    by code_simp
  have thrown: "getPossibleCollections ''constructor'' = Inl TypeError"
    by code_simp
  have failThrown:
    "\<not> success (resolveObjectIdField plainIdText ordersOnly ''constructor'' None 5)"
    by code_simp
  show ?thesis
    using resolve_success_without_suggestion
            [of plainIdText ordersOnly "''userId''" None 5
                "[''users'', ''user'', ''accounts'', ''profiles'']"]
          resolve_success_without_suggestion
            [of plainIdText disconnected "''userId''" None 5 "[]"]
          resolve_success_without_suggestion
            [of plainIdText ordersOnly "''constructor''" None 5 "[]"]
    by (simp add: avail possible listed inferred off failOff thrown failThrown)
qed

section \<open>Properties of the collection inferencer\<close>

lemma inferFromFileName_confidence:
  "confidence (inferFromFileName file) = dbl 0 \<or>
   confidence (inferFromFileName file) = dbl (4 / 10)"
  by (simp add: inferFromFileName_def Let_def)

lemma bestOf_keeps_first:
  assumes "\<forall>i \<in> set others. confidence i \<le> confidence first"
  shows "bestOf first others = first"
  using assms unfolding bestOf_def
  by (induction others) auto

text \<open>
  C7. For every route with path \<open>/api/v1/products/:id\<close> and method \<open>GET\<close>, whatever
  its file, \<open>inferCollectionName\<close> returns the inference of the path-segment strategy:
  collection \<open>product\<close>, confidence 1, which is the additive rule
  \<open>0.5 + 0.3 + 0.2 + 0.1\<close> capped at 1, and \<open>products\<close> among the alternative names.
\<close>

theorem product_route_inference:
  assumes "path r = ''/api/v1/products/:id''" and "routeMethod r = ''GET''"
  shows "\<exists>inf. inferCollectionName r = Inr inf \<and>
           collectionName inf = ''product'' \<and>
           confidence inf = min (1 / 2 + 3 / 10 + 2 / 10 + 1 / 10) 1 \<and>
           ''products'' \<in> set (alternativeNames inf)"
proof -
  have segs: "parseRoutePath (path r) = [''products'']"
    unfolding assms by code_simp
  define fromPath where "fromPath = inferFromPathSegments [''products''] r"
  have fromPath: "collectionName fromPath = ''product''" "confidence fromPath = 1"
    "alternativeNames fromPath = [''products'', ''products'']"
    unfolding fromPath_def inferFromPathSegments_def assms by code_simp+
  define fromSpecial :: CollectionInference where
    "fromSpecial = \<lparr>collectionName = ''unknown'', confidence = dbl 0,
                     reasoning = ''No special cases matched'', alternativeNames = []\<rparr>"
  have special: "inferFromSpecialCases [''products''] r = Inr fromSpecial"
    unfolding inferFromSpecialCases_def isAuthRoute_def fromSpecial_def assms by code_simp
  define fromMethod where "fromMethod = inferFromRouteMethod [''products''] r"
  have fromMethod: "collectionName fromMethod = ''product''" "confidence fromMethod = 1 / 2"
    "alternativeNames fromMethod = [''products'']"
    unfolding fromMethod_def inferFromRouteMethod_def assms by code_simp+
  define fromFile where "fromFile = inferFromFileName (filePath r)"
  have zero: "dbl 0 = 0" by code_simp
  have low: "dbl (4 / 10) \<le> 1" by code_simp
  have fileConf: "confidence fromFile \<le> 1"
    using inferFromFileName_confidence[of "filePath r"] zero low
    by (auto simp: fromFile_def)
  have best: "bestOf fromPath [fromSpecial, fromMethod, fromFile] = fromPath"
    by (rule bestOf_keeps_first)
       (simp add: fromPath fromMethod fileConf fromSpecial_def zero)
  define alts where
    "alts = take 5 (setToArray
        (concat (map (\<lambda>inference.
                        (if collectionName inference \<noteq> collectionName fromPath
                         then [collectionName inference] else [])
                        @ alternativeNames inference)
                   [fromPath, fromSpecial, fromMethod, fromFile])))"
  have result: "inferCollectionName r = Inr (fromPath\<lparr>alternativeNames := alts\<rparr>)"
    by (simp add: inferCollectionName_def segs special Let_def best alts_def
        fromPath_def[symmetric] fromMethod_def[symmetric] fromFile_def[symmetric])
  have "''products'' \<in> set alts"
    by (simp add: alts_def fromPath setToArray_def)
  moreover have "(1::rat) = min (1 / 2 + 3 / 10 + 2 / 10 + 1 / 10) 1"
    by simp
  ultimately show ?thesis
    using result fromPath by simp
qed

theorem product_route_inference_witness:
  "path (productRoute ''src/routes/productRoutes.js'') = ''/api/v1/products/:id'' \<and>
   routeMethod (productRoute ''src/routes/productRoutes.js'') = ''GET'' \<and>
   inferCollectionName (productRoute ''src/routes/productRoutes.js'') =
     Inr \<lparr>collectionName = ''product'', confidence = 1,
          reasoning = ''Inferred from path segment: products'',
          alternativeNames = [''products'', ''unknown'', ''route'', ''src'']\<rparr>"
proof -
  have p: "path (productRoute ''src/routes/productRoutes.js'') = ''/api/v1/products/:id''"
    by (simp add: productRoute_def)
  have m: "routeMethod (productRoute ''src/routes/productRoutes.js'') = ''GET''"
    by (simp add: productRoute_def)
  have v: "inferCollectionName (productRoute ''src/routes/productRoutes.js'') =
     Inr \<lparr>collectionName = ''product'', confidence = 1,
          reasoning = ''Inferred from path segment: products'',
          alternativeNames = [''products'', ''unknown'', ''route'', ''src'']\<rparr>"
    by code_simp
  show ?thesis
    using product_route_inference[OF p m] p m v by simp
qed

section \<open>Properties of the hybrid payload generator\<close>

text \<open>
  C6 (as stated, refuted). With both sources present the claim lets \<open>ai-only\<close> appear
  exactly when the caller does not prefer real data and the sample confidence is not
  above 0.6. At confidence 0.5 the code answers \<open>ai-only\<close> for a caller who prefers real
  data, and \<open>hybrid\<close> for one who does not.
\<close>

theorem recommended_approach_counterexample:
  "determineRecommendedApproach (Some emailPrediction)
     (Some \<lparr>mongoPrimary = profileSamples\<lparr>sampleConfidence := 1 / 2\<rparr>,
            mongoSchemaOf = None\<rparr>)
     (getDefaultOptions\<lparr>preferRealData := True\<rparr>) = AiOnly \<and>
   determineRecommendedApproach (Some emailPrediction)
     (Some \<lparr>mongoPrimary = profileSamples\<lparr>sampleConfidence := 1 / 2\<rparr>,
            mongoSchemaOf = None\<rparr>)
     (getDefaultOptions\<lparr>preferRealData := False\<rparr>) = HybridApproach"
  by code_simp

text \<open>
  C6 (amended). When the prediction has fields and the sample data has documents,
  \<open>determineRecommendedApproach\<close> returns \<open>ai-only\<close> exactly when the caller prefers
  real data and the sample confidence is not above the literal 0.6, and \<open>hybrid\<close>
  exactly when the caller prefers real data with confidence above 0.6 or does not prefer
  real data.
\<close>

theorem recommended_approach_both_present:
  assumes "predictedFields p \<noteq> []" and "samples (mongoPrimary md) \<noteq> []"
  shows "(determineRecommendedApproach (Some p) (Some md) options = AiOnly \<longleftrightarrow>
            preferRealData options \<and> \<not> sampleConfidence (mongoPrimary md) > dbl (6 / 10)) \<and>
         (determineRecommendedApproach (Some p) (Some md) options = HybridApproach \<longleftrightarrow>
            (preferRealData options \<and> sampleConfidence (mongoPrimary md) > dbl (6 / 10)) \<or>
            \<not> preferRealData options)"
  using assms by (auto simp: determineRecommendedApproach_def Let_def)

theorem recommended_approach_both_present_witness:
  "predictedFields emailPrediction \<noteq> [] \<and> samples profileSamples \<noteq> [] \<and>
   \<not> sampleConfidence profileSamples > dbl (6 / 10) \<and>
   preferRealData getDefaultOptions \<and>
   determineRecommendedApproach (Some emailPrediction)
     (Some \<lparr>mongoPrimary = profileSamples, mongoSchemaOf = None\<rparr>) getDefaultOptions
     = AiOnly"
proof -
  have p: "predictedFields emailPrediction \<noteq> []"
    by (simp add: emailPrediction_def)
  have s: "samples (mongoPrimary \<lparr>mongoPrimary = profileSamples, mongoSchemaOf = None\<rparr>) \<noteq> []"
    by (simp add: profileSamples_def)
  have c: "\<not> sampleConfidence profileSamples > dbl (6 / 10)"
    by code_simp
  have o: "preferRealData getDefaultOptions"
    by (simp add: getDefaultOptions_def)
  show ?thesis
    using recommended_approach_both_present[OF p s, of getDefaultOptions] p s c o
    by simp
qed

text \<open>
  C4. When the connection is unavailable and the predictor returns a prediction with at
  least one field, the result recommends \<open>ai-only\<close> and has \<open>hasMongoData\<close> false.
\<close>

theorem unavailable_store_is_ai_only:
  assumes "\<not> isAvailable (connector env)"
    and "getAIPrediction env options 0 = Some p"
    and "predictedFields p \<noteq> []"
  shows "recommendedApproach (generateHybridPrediction env r options) = AiOnly \<and>
         \<not> hasMongoData (generateHybridPrediction env r options)"
proof -
  have rec: "determineRecommendedApproach (Some p) None options = AiOnly"
    using assms(3) by (simp add: determineRecommendedApproach_def)
  show ?thesis
  proof (cases "mergeFieldPredictions env (predictedFields p) None r options")
    case (Inl e)
    then show ?thesis
      using assms by (simp add: generateHybridPrediction_def Let_def)
  next
    case (Inr merged)
    then show ?thesis
      using assms rec by (simp add: generateHybridPrediction_def Let_def)
  qed
qed

theorem unavailable_store_is_ai_only_witness:
  "\<not> isAvailable (connector offlineEnv) \<and>
   getAIPrediction offlineEnv getDefaultOptions 0 = Some emailPrediction \<and>
   predictedFields emailPrediction \<noteq> [] \<and>
   recommendedApproach (generateHybridPrediction offlineEnv profilesRoute getDefaultOptions)
     = AiOnly \<and>
   \<not> hasMongoData (generateHybridPrediction offlineEnv profilesRoute getDefaultOptions)"
proof -
  have a: "\<not> isAvailable (connector offlineEnv)"
    by code_simp
  have b: "getAIPrediction offlineEnv getDefaultOptions 0 = Some emailPrediction"
    by code_simp
  have c: "predictedFields emailPrediction \<noteq> []"
    by (simp add: emailPrediction_def)
  show ?thesis
    using unavailable_store_is_ai_only[OF a b c, of profilesRoute] a b c by simp
qed





text \<open>The invariant of the merge: \<open>hasRealData\<close> says whether \<open>realValues\<close> holds a value
  (the predicate \<open>realDataFlagExact\<close>).\<close>

lemma mergeSchemaFields_flag:
  assumes "mergeSchemaFields env aiFields prim verb options acc processed fs = Inr (out, names)"
    and "\<forall>f \<in> set acc. realDataFlagExact f"
  shows "\<forall>f \<in> set out. realDataFlagExact f"
  using assms
proof (induction fs arbitrary: acc processed)
  case Nil
  then show ?case by simp
next
  case (Cons mongoField fs)
  show ?case
  proof (cases "shouldSkipField (schemaFieldName mongoField) verb options")
    case True
    with Cons show ?thesis by simp
  next
    case False
    with Cons.prems(1) obtain vals where
      v: "getRealValuesForField env (schemaFieldName mongoField) (samples prim)
            (Some (sampledCollection prim)) = Inr vals"
      by (auto simp: Let_def split: sum.splits)
    show ?thesis
      using Cons.prems False v
      by (intro Cons.IH[where acc = "acc @ [_]"])
         (auto simp: Let_def realDataFlagExact_def)
  qed
qed

lemma mergeAiFields_flag:
  assumes "mergeAiFields env mongoData verb options acc processed fs = Inr out"
    and "\<forall>f \<in> set acc. realDataFlagExact f"
  shows "\<forall>f \<in> set out. realDataFlagExact f"
  using assms
proof (induction fs arbitrary: acc processed)
  case Nil
  then show ?case by simp
next
  case (Cons aiField fs)
  show ?case
  proof (cases "name aiField \<notin> set processed \<and> \<not> shouldSkipField (name aiField) verb options")
    case False
    with Cons show ?thesis by auto
  next
    case True
    with Cons.prems(1) obtain vals where
      v: "(case mongoData of
             None \<Rightarrow> Inr []
           | Some md \<Rightarrow>
               getRealValuesForField env (name aiField) (samples (mongoPrimary md)) None)
          = Inr vals"
      by (auto split: sum.splits)
    show ?thesis
      using Cons.prems True v
      by (intro Cons.IH[where acc = "acc @ [_]"])
         (auto simp: realDataFlagExact_def)
  qed
qed

lemma applyResolution_flag:
  "realDataFlagExact f \<Longrightarrow> realDataFlagExact (applyResolution resolutions f)"
  by (auto simp: applyResolution_def realDataFlagExact_def split: option.splits)

lemma resolveObjectIdFields_flag:
  assumes "\<forall>f \<in> set fs. realDataFlagExact f"
  shows "\<forall>f \<in> set (resolveObjectIdFields env fs collName). realDataFlagExact f"
  using assms by (auto simp: resolveObjectIdFields_def Let_def applyResolution_flag)

lemma set_jsInsert: "set (jsInsert after x ys) = insert x (set ys)"
  by (induction ys) auto

lemma set_jsSort: "set (jsSort after xs) = set xs"
  by (induction xs) (simp_all add: jsSort_def set_jsInsert)

lemma mergeFieldPredictions_flag:
  assumes "mergeFieldPredictions env aiFields mongoData r options = Inr out"
  shows "\<forall>f \<in> set out. realDataFlagExact f"
proof -
  obtain fromSchema processed where
    first: "(case mongoData of
              None \<Rightarrow> Inr ([], [])
            | Some md \<Rightarrow>
               (case mongoSchemaOf md of
                  None \<Rightarrow> Inr ([], [])
                | Some schema \<Rightarrow>
                    mergeSchemaFields env aiFields (mongoPrimary md) (routeMethod r) options
                      [] [] (detailedFields schema))) = Inr (fromSchema, processed)"
    using assms by (auto simp: mergeFieldPredictions_def split: sum.splits)
  have flagged: "\<forall>f \<in> set fromSchema. realDataFlagExact f"
    using first mergeSchemaFields_flag[of env aiFields _ "routeMethod r" options "[]" "[]"]
    by (auto split: option.splits)
  obtain merged where
    second: "mergeAiFields env mongoData (routeMethod r) options fromSchema processed aiFields
             = Inr merged"
    using assms first by (auto simp: mergeFieldPredictions_def split: sum.splits)
  have "\<forall>f \<in> set merged. realDataFlagExact f"
    using mergeAiFields_flag[OF second flagged] .
  then have resolved:
    "\<forall>f \<in> set (resolveObjectIdFields env merged
                   (map_option (\<lambda>md. sampledCollection (mongoPrimary md)) mongoData)).
        realDataFlagExact f"
    by (rule resolveObjectIdFields_flag)
  have "set out \<subseteq> set (resolveObjectIdFields env merged
                   (map_option (\<lambda>md. sampledCollection (mongoPrimary md)) mongoData))"
    using assms first second
    by (auto simp: mergeFieldPredictions_def Let_def set_jsSort
        split: option.splits if_splits dest: in_set_takeD)
  with resolved show ?thesis by blast
qed

lemma generateHybridPrediction_flag:
  "\<forall>f \<in> set (mergedFields (generateHybridPrediction env r options)). realDataFlagExact f"
proof (cases "mergeFieldPredictions env
                (case getAIPrediction env options 0 of
                   None \<Rightarrow> [] | Some p \<Rightarrow> predictedFields p)
                (if isAvailable (connector env) then getMongoData env else None) r options")
  case (Inl e)
  then show ?thesis
    by (auto simp: generateHybridPrediction_def Let_def aiOnlyField_def realDataFlagExact_def
        split: option.splits)
next
  case (Inr merged)
  then show ?thesis
    using mergeFieldPredictions_flag[OF Inr]
    by (simp add: generateHybridPrediction_def Let_def)
qed

lemma profiles_provenance:
  "map provenance
     (mergedFields (generateHybridPrediction profilesEnv profilesRoute getDefaultOptions))
   = [(''email'', Mongodb, True), (''nickname'', Mongodb, False)]"
  by code_simp

text \<open>
  C5 (as stated, refuted). The claim gives every field with source \<open>mongodb\<close> the flag
  \<open>hasRealData\<close>. In the collection \<open>profiles\<close> every document has \<open>nickname: null\<close>.
  The schema lists the field, no sample holds a value for it, and the field-sample query
  for non-null values finds nothing: the merged field has source \<open>mongodb\<close> and
  \<open>hasRealData\<close> false.
\<close>

theorem mongodb_field_without_value_counterexample:
  "map provenance
     (mergedFields (generateHybridPrediction profilesEnv profilesRoute getDefaultOptions))
   = [(''email'', Mongodb, True), (''nickname'', Mongodb, False)]"
  by (rule profiles_provenance)

text \<open>
  C5 (amended). In the list returned by \<open>generateHybridPrediction\<close> a field whose source
  is \<open>mongodb\<close> has \<open>hasRealData\<close> true exactly when its \<open>realValues\<close> array holds a
  value, one found in the samples, by the field-sample query, or by ObjectId resolution.
\<close>

theorem mongodb_field_flag_follows_values:
  "\<forall>f \<in> set (mergedFields (generateHybridPrediction env r options)).
     source f = Mongodb \<longrightarrow>
       (hasRealData f \<longleftrightarrow> (\<exists>vs. realValues f = Some vs \<and> vs \<noteq> []))"
  using generateHybridPrediction_flag[of env r options]
  by (simp add: realDataFlagExact_def)

theorem mongodb_field_flag_follows_values_witness:
  "map provenance
     (mergedFields (generateHybridPrediction profilesEnv profilesRoute getDefaultOptions))
   = [(''email'', Mongodb, True), (''nickname'', Mongodb, False)] \<and>
   map realValues
     (mergedFields (generateHybridPrediction profilesEnv profilesRoute getDefaultOptions))
   = [Some [JStr ''ada@example.org''], Some []]"
proof -
  have vs: "map realValues
     (mergedFields (generateHybridPrediction profilesEnv profilesRoute getDefaultOptions))
   = [Some [JStr ''ada@example.org''], Some []]"
    by code_simp
  show ?thesis
    using mongodb_field_flag_follows_values[of profilesEnv profilesRoute getDefaultOptions]
      profiles_provenance vs by simp
qed

end
